theory Spec2Isabelle
  imports Complex_Main
begin

section \<open>Data model of the billing and inventory ledger (billing/models.py)\<close>

text \<open>
  The relational store is a record of tables; a table is the list of its rows in
  insertion order. Primary keys are the auto-increment keys of Django's AutoField: they
  start at 1, and the key 0 stands for Python's \<^verbatim>\<open>None\<close> of an instance that has not been
  saved yet (\<^verbatim>\<open>if self.pk:\<close> is false for both). A nullable foreign key is a
  \<open>pk option\<close>.

  Dates and times are natural numbers (days, and instants of one clock). A queryset is
  the list of the matching rows in table order; the orderings the model classes declare
  (by date) play no part in what is proved here.

  The handlers of billing/signals.py are taken as connected to their signals, as the
  tests in billing/tests.py expect them to be.

  Money is a \<^verbatim>\<open>DecimalField(max_digits=10, decimal_places=2)\<close>: a number of hundredths,
  held as an \<open>int\<close>. Sums, differences and products with an integer quantity of such
  values have two decimal places again, so \<^verbatim>\<open>.quantize(Decimal('0.01'))\<close> leaves them as
  they are. Percentages (\<^verbatim>\<open>decimal_places=2\<close>) are hundredths of a percent.
  A \<^verbatim>\<open>PositiveIntegerField\<close> is a \<open>nat\<close>.
\<close>

type_synonym pk = nat
type_synonym money = int

datatype error = ValidationError | DoesNotExist | Http404 | AttributeError

datatype stock_source = PURCHASE_ORDER | REPLACEMENT | MANUAL_ADDITION

datatype po_status = PO_PENDING | PO_PARTIALLY_RECEIVED | PO_COMPLETED | PO_CANCELLED

datatype return_status =
  PR_PENDING | PR_REFUNDED | PR_REPLACED | PR_PARTIALLY_PROCESSED | PR_FULLY_PROCESSED

datatype invoice_status = DRAFT | PENDING | PAID | PARTIAL | CANCELLED

record Product =
  p_pk :: pk
  p_requires_expiry_tracking :: bool

record ProductVariant =
  pv_pk :: pk
  pv_product :: pk
  pv_price :: money

record Service =
  sv_pk :: pk
  sv_price :: money

record StockItem =
  si_pk :: pk
  si_product_variant :: pk
  si_supplier :: "pk option"
  si_purchase_order_item :: "pk option"
  si_batch_number :: string
  si_expiry_date :: "nat option"
  si_quantity :: nat
  si_mrp :: money
  si_base_cost_price :: money
  si_discount_percentage :: int
  si_gst_percentage :: int
  si_cost_price :: money
  si_source :: stock_source

record PurchaseOrderItem =
  poi_pk :: pk
  poi_purchase_order :: pk
  poi_product_variant :: pk
  poi_quantity :: nat
  poi_quantity_received :: nat

record PurchaseOrder =
  po_pk :: pk
  po_supplier :: pk
  po_order_date :: nat
  po_status :: po_status

record SupplierPayment =
  sp_pk :: pk
  sp_purchase_order :: pk
  sp_amount :: money

record PurchaseReturn =
  pr_pk :: pk
  pr_purchase_order :: "pk option"
  pr_stock_item :: pk
  pr_quantity :: nat
  pr_status :: return_status

record ReplacementItem =
  ri_pk :: pk
  ri_purchase_return :: pk
  ri_quantity :: nat
  ri_created_stock_item :: "pk option"
  ri_batch_number :: string
  ri_expiry_date :: "nat option"

record SupplierRefund =
  sr_pk :: pk
  sr_purchase_order :: "pk option"
  sr_purchase_return :: "pk option"
  sr_amount :: money

record SupplierCredit =
  sc_pk :: pk
  sc_supplier :: pk
  sc_source_refund :: pk
  sc_initial_amount :: money
  sc_balance :: money
  sc_is_fully_used :: bool

record CreditApplication =
  ca_pk :: pk
  ca_credit :: pk
  ca_applied_to_po :: pk
  ca_amount_applied :: money

record StockItemTransaction =
  st_pk :: pk
  st_invoice_item :: pk
  st_stock_item :: pk
  st_quantity :: nat

record Invoice =
  inv_pk :: pk
  inv_status :: invoice_status
  inv_total_amount :: money
  inv_discount :: money

record InvoiceItem =
  ii_pk :: pk
  ii_invoice :: pk
  ii_service :: "pk option"
  ii_stock_item :: "pk option"
  ii_quantity :: nat
  ii_unit_price :: "money option"
  ii_discount :: money

record InvoicePayment =
  ip_pk :: pk
  ip_invoice :: pk
  ip_amount :: money

record Refund =
  rf_pk :: pk
  rf_invoice :: pk
  rf_amount :: money

record db =
  products :: "Product list"
  product_variants :: "ProductVariant list"
  services :: "Service list"
  stock_items :: "StockItem list"
  purchase_order_items :: "PurchaseOrderItem list"
  purchase_orders :: "PurchaseOrder list"
  supplier_payments :: "SupplierPayment list"
  purchase_returns :: "PurchaseReturn list"
  replacement_items :: "ReplacementItem list"
  supplier_refunds :: "SupplierRefund list"
  supplier_credits :: "SupplierCredit list"
  credit_applications :: "CreditApplication list"
  stock_item_transactions :: "StockItemTransaction list"
  invoices :: "Invoice list"
  invoice_items :: "InvoiceItem list"
  invoice_payments :: "InvoicePayment list"
  refunds :: "Refund list"

definition empty_db :: db where
  "empty_db = \<lparr> products = [], product_variants = [], services = [], stock_items = [],
     purchase_order_items = [], purchase_orders = [], supplier_payments = [],
     purchase_returns = [], replacement_items = [], supplier_refunds = [],
     supplier_credits = [], credit_applications = [], stock_item_transactions = [],
     invoices = [], invoice_items = [], invoice_payments = [], refunds = [] \<rparr>"

subsection \<open>The ORM operations the models use\<close>

text \<open>\<^verbatim>\<open>Model.objects.get(pk=k)\<close> and the dereference of a foreign key: the row with
  that key, if there is one.\<close>

definition get_row :: "('a \<Rightarrow> pk) \<Rightarrow> 'a list \<Rightarrow> pk \<Rightarrow> 'a option" where
  "get_row key rows k = find (\<lambda>r. key r = k) rows"

text \<open>The key an INSERT gives a new row: above every key of the table.\<close>

definition new_pk :: "('a \<Rightarrow> pk) \<Rightarrow> 'a list \<Rightarrow> pk" where
  "new_pk key rows = Suc (fold max (map key rows) 0)"

text \<open>\<^verbatim>\<open>Model.save\<close> of the ORM: an instance without key is inserted under a new key,
  an instance with a key replaces the row of that key (and is inserted if there is
  none). The instance comes back with its key.\<close>

definition save_row ::
  "('a \<Rightarrow> pk) \<Rightarrow> (pk \<Rightarrow> 'a \<Rightarrow> 'a) \<Rightarrow> 'a list \<Rightarrow> 'a \<Rightarrow> 'a \<times> 'a list" where
  "save_row key set_key rows r =
     (if key r = 0 then (let r' = set_key (new_pk key rows) r in (r', rows @ [r']))
      else if \<exists>x \<in> set rows. key x = key r
           then (r, map (\<lambda>x. if key x = key r then r else x) rows)
      else (r, rows @ [r]))"

text \<open>\<^verbatim>\<open>aggregate(total=Coalesce(Sum(field), 0))\<close> over a queryset.\<close>

definition Sum :: "('a \<Rightarrow> int) \<Rightarrow> 'a list \<Rightarrow> int" where
  "Sum f rows = sum_list (map f rows)"

subsection \<open>PurchaseOrder.update\_status and SupplierPayment.save\<close>

definition po_items :: "db \<Rightarrow> PurchaseOrder \<Rightarrow> PurchaseOrderItem list" where
  "po_items d po = filter (\<lambda>i. poi_purchase_order i = po_pk po) (purchase_order_items d)"

text \<open>\<^verbatim>\<open>super().save(update_fields=['status'])\<close>: only the status column of the row
  is written.\<close>

definition save_po_status :: "db \<Rightarrow> PurchaseOrder \<Rightarrow> db" where
  "save_po_status d po =
     d\<lparr>purchase_orders :=
         map (\<lambda>r. if po_pk r = po_pk po then r\<lparr>po_status := po_status po\<rparr> else r)
             (purchase_orders d)\<rparr>"

definition PurchaseOrder_update_status :: "db \<Rightarrow> PurchaseOrder \<Rightarrow> PurchaseOrder \<times> db" where
  "PurchaseOrder_update_status d po =
     (let po' =
        (if po_items d po = [] then po\<lparr>po_status := PO_PENDING\<rparr>
         else
           (let total_ord = Sum (\<lambda>i. int (poi_quantity i)) (po_items d po);
                total_rec = Sum (\<lambda>i. int (poi_quantity_received i)) (po_items d po)
            in if total_rec = 0 then po\<lparr>po_status := PO_PENDING\<rparr>
               else if total_rec < total_ord then po\<lparr>po_status := PO_PARTIALLY_RECEIVED\<rparr>
               else po\<lparr>po_status := PO_COMPLETED\<rparr>))
      in (po', save_po_status d po'))"

definition get_PurchaseOrder :: "db \<Rightarrow> pk \<Rightarrow> PurchaseOrder option" where
  "get_PurchaseOrder d k = get_row po_pk (purchase_orders d) k"


subsection \<open>Stock ledger: StockItem properties\<close>

definition get_StockItem :: "db \<Rightarrow> pk \<Rightarrow> StockItem option" where
  "get_StockItem d k = get_row si_pk (stock_items d) k"

definition quantity_sold :: "db \<Rightarrow> StockItem \<Rightarrow> int" where
  "quantity_sold d s =
     Sum (\<lambda>t. int (st_quantity t))
         (filter (\<lambda>t. st_stock_item t = si_pk s) (stock_item_transactions d))"

definition quantity_returned :: "db \<Rightarrow> StockItem \<Rightarrow> int" where
  "quantity_returned d s =
     Sum (\<lambda>r. int (pr_quantity r))
         (filter (\<lambda>r. pr_stock_item r = si_pk s) (purchase_returns d))"

definition quantity_available :: "db \<Rightarrow> StockItem \<Rightarrow> int" where
  "quantity_available d s = int (si_quantity s) - quantity_sold d s - quantity_returned d s"

subsection \<open>Invoice\<close>


definition invoice_items_of :: "db \<Rightarrow> Invoice \<Rightarrow> InvoiceItem list" where
  "invoice_items_of d iv = filter (\<lambda>i. ii_invoice i = inv_pk iv) (invoice_items d)"

definition payments_of :: "db \<Rightarrow> Invoice \<Rightarrow> InvoicePayment list" where
  "payments_of d iv = filter (\<lambda>p. ip_invoice p = inv_pk iv) (invoice_payments d)"

definition refunds_of :: "db \<Rightarrow> Invoice \<Rightarrow> Refund list" where
  "refunds_of d iv = filter (\<lambda>r. rf_invoice r = inv_pk iv) (refunds d)"

definition calculate_total_amount :: "db \<Rightarrow> Invoice \<Rightarrow> money" where
  "calculate_total_amount d iv =
     Sum (\<lambda>i. int (ii_quantity i) * (case ii_unit_price i of None \<Rightarrow> 0 | Some p \<Rightarrow> p))
         (invoice_items_of d iv)"

definition Invoice_total_discount :: "db \<Rightarrow> Invoice \<Rightarrow> money" where
  "Invoice_total_discount d iv =
     Sum (\<lambda>i. ii_discount i * int (ii_quantity i)) (invoice_items_of d iv) + inv_discount iv"

definition net_amount :: "db \<Rightarrow> Invoice \<Rightarrow> money" where
  "net_amount d iv = inv_total_amount iv - Invoice_total_discount d iv"

definition Invoice_amount_paid :: "db \<Rightarrow> Invoice \<Rightarrow> money" where
  "Invoice_amount_paid d iv = Sum ip_amount (payments_of d iv)"

definition total_refunded :: "db \<Rightarrow> Invoice \<Rightarrow> money" where
  "total_refunded d iv = Sum rf_amount (refunds_of d iv)"

definition Invoice_balance_due :: "db \<Rightarrow> Invoice \<Rightarrow> money" where
  "Invoice_balance_due d iv = net_amount d iv - Invoice_amount_paid d iv + total_refunded d iv"

text \<open>\<^verbatim>\<open>Invoice.save\<close>. The recomputation of the total and of the status sits under
  \<^verbatim>\<open>if self.pk:\<close>, so it is skipped for an instance that has no key yet.\<close>

definition Invoice_save :: "db \<Rightarrow> Invoice \<Rightarrow> Invoice \<times> db" where
  "Invoice_save d iv =
     (let iv1 =
        (if inv_pk iv \<noteq> 0 then
           (let iv2 = iv\<lparr>inv_total_amount := calculate_total_amount d iv\<rparr>
            in if inv_status iv2 \<noteq> CANCELLED then
                 (let paid = Sum ip_amount (payments_of d iv2);
                      refunded = Sum rf_amount (refunds_of d iv2);
                      balance = net_amount d iv2 - paid + refunded
                  in if balance \<le> 0 then iv2\<lparr>inv_status := PAID\<rparr>
                     else if paid > 0 then iv2\<lparr>inv_status := PARTIAL\<rparr>
                     else iv2\<lparr>inv_status := PENDING\<rparr>)
               else iv2)
         else iv);
          (iv', rows) = save_row inv_pk (\<lambda>k r. r\<lparr>inv_pk := k\<rparr>) (invoices d) iv1
      in (iv', d\<lparr>invoices := rows\<rparr>))"

subsection \<open>InvoiceItem and the signal handlers that keep the stock ledger (billing/signals.py)\<close>










subsection \<open>StockItem.save\<close>

text \<open>Python's \<^verbatim>\<open>str.strip()\<close> on the ASCII range: the characters for which
  \<^verbatim>\<open>str.isspace\<close> holds are removed from both ends.\<close>

definition isspace :: "char \<Rightarrow> bool" where
  "isspace c = (of_char c \<in> {9, 10, 11, 12, 13, 28, 29, 30, 31, 32 :: nat})"

definition strip :: "string \<Rightarrow> string" where
  "strip s = rev (dropWhile isspace (rev (dropWhile isspace s)))"

text \<open>The validators a \<^verbatim>\<open>DecimalField\<close> carries: at most
  \<^verbatim>\<open>max_digits - decimal_places\<close> digits before the point, that is 8 for money
  (\<^verbatim>\<open>max_digits=10\<close>) and 3 for a percentage (\<^verbatim>\<open>max_digits=5\<close>).\<close>

definition money_field_ok :: "int \<Rightarrow> bool" where
  "money_field_ok v = (\<bar>v\<bar> < 10 ^ 10)"

definition percent_field_ok :: "int \<Rightarrow> bool" where
  "percent_field_ok v = (\<bar>v\<bar> < 10 ^ 5)"

text \<open>\<^verbatim>\<open>StockItem.full_clean\<close>: the field validators, then \<^verbatim>\<open>clean\<close>, which refuses a
  batch number that is blank once stripped.\<close>

definition StockItem_full_clean :: "StockItem \<Rightarrow> error + StockItem" where
  "StockItem_full_clean s =
     (if si_batch_number s = [] \<or> length (si_batch_number s) > 100 then Inl ValidationError
      else if \<not> (money_field_ok (si_mrp s) \<and> money_field_ok (si_base_cost_price s)
                 \<and> money_field_ok (si_cost_price s) \<and> percent_field_ok (si_discount_percentage s)
                 \<and> percent_field_ok (si_gst_percentage s)) then Inl ValidationError
      else if strip (si_batch_number s) = [] then Inl ValidationError
      else Inr s)"

text \<open>\<^verbatim>\<open>StockItem.objects.create(...)\<close>: \<^verbatim>\<open>save\<close> of a new instance, which runs
  \<^verbatim>\<open>full_clean\<close> before the row is written.\<close>

definition StockItem_create :: "db \<Rightarrow> StockItem \<Rightarrow> error + (StockItem \<times> db)" where
  "StockItem_create d s0 =
     (case StockItem_full_clean s0 of
        Inl e \<Rightarrow> Inl e
      | Inr s \<Rightarrow>
         (let (s', rows) = save_row si_pk (\<lambda>k r. r\<lparr>si_pk := k\<rparr>) (stock_items d) (s\<lparr>si_pk := 0\<rparr>)
          in Inr (s', d\<lparr>stock_items := rows\<rparr>)))"

subsection \<open>PurchaseReturn\<close>

definition get_PurchaseReturn :: "db \<Rightarrow> pk \<Rightarrow> PurchaseReturn option" where
  "get_PurchaseReturn d k = get_row pr_pk (purchase_returns d) k"

definition total_value :: "db \<Rightarrow> PurchaseReturn \<Rightarrow> money" where
  "total_value d r =
     (case get_StockItem d (pr_stock_item r) of
        Some s \<Rightarrow> int (pr_quantity r) * si_cost_price s
      | None \<Rightarrow> 0)"

definition quantity_replaced :: "db \<Rightarrow> PurchaseReturn \<Rightarrow> int" where
  "quantity_replaced d r =
     Sum (\<lambda>i. int (ri_quantity i))
         (filter (\<lambda>i. ri_purchase_return i = pr_pk r) (replacement_items d))"

definition amount_refunded :: "db \<Rightarrow> PurchaseReturn \<Rightarrow> money" where
  "amount_refunded d r =
     Sum sr_amount (filter (\<lambda>f. sr_purchase_return f = Some (pr_pk r)) (supplier_refunds d))"

definition value_of_items_replaced :: "db \<Rightarrow> PurchaseReturn \<Rightarrow> money" where
  "value_of_items_replaced d r =
     (case get_StockItem d (pr_stock_item r) of
        Some s \<Rightarrow> quantity_replaced d r * si_cost_price s
      | None \<Rightarrow> 0)"

definition value_pending_action :: "db \<Rightarrow> PurchaseReturn \<Rightarrow> money" where
  "value_pending_action d r =
     max (total_value d r - value_of_items_replaced d r - amount_refunded d r) 0"

text \<open>\<^verbatim>\<open>quantity_pending_action\<close>. The quotient of two amounts, the dividend not
  negative and the divisor positive, cut to an integer by \<^verbatim>\<open>int(...)\<close>, is their
  integer quotient.\<close>

definition quantity_pending_action :: "db \<Rightarrow> PurchaseReturn \<Rightarrow> error + int" where
  "quantity_pending_action d r =
     (case get_StockItem d (pr_stock_item r) of
        None \<Rightarrow> Inl DoesNotExist
      | Some s \<Rightarrow>
         (if si_cost_price s \<le> 0 then Inr (int (pr_quantity r) - quantity_replaced d r)
          else Inr (value_pending_action d r div si_cost_price s)))"

definition save_return_status :: "db \<Rightarrow> PurchaseReturn \<Rightarrow> db" where
  "save_return_status d r =
     d\<lparr>purchase_returns :=
         map (\<lambda>x. if pr_pk x = pr_pk r then x\<lparr>pr_status := pr_status r\<rparr> else x)
             (purchase_returns d)\<rparr>"

text \<open>\<^verbatim>\<open>PurchaseReturn.update_status\<close>; the threshold 0.01 is one hundredth.\<close>

definition PurchaseReturn_update_status :: "db \<Rightarrow> PurchaseReturn \<Rightarrow> PurchaseReturn \<times> db" where
  "PurchaseReturn_update_status d r =
     (let r' = (if value_pending_action d r < 1 then r\<lparr>pr_status := PR_FULLY_PROCESSED\<rparr>
                else if quantity_replaced d r > 0 \<or> amount_refunded d r > 0
                     then r\<lparr>pr_status := PR_PARTIALLY_PROCESSED\<rparr>
                else r\<lparr>pr_status := PR_PENDING\<rparr>)
      in (r', save_return_status d r'))"

subsection \<open>ReplacementItem.save\<close>

definition ReplacementItem_save :: "db \<Rightarrow> ReplacementItem \<Rightarrow> error + (ReplacementItem \<times> db)" where
  "ReplacementItem_save d i =
     (case (if ri_pk i = 0 then
              (case get_PurchaseReturn d (ri_purchase_return i) of
                 None \<Rightarrow> Inl DoesNotExist
               | Some r \<Rightarrow>
                  (case get_StockItem d (pr_stock_item r) of
                     None \<Rightarrow> Inl DoesNotExist
                   | Some original_stock \<Rightarrow>
                      (case StockItem_create d
                              \<lparr>si_pk = 0,
                               si_product_variant = si_product_variant original_stock,
                               si_supplier = si_supplier original_stock,
                               si_purchase_order_item = None,
                               si_batch_number = ri_batch_number i,
                               si_expiry_date = ri_expiry_date i,
                               si_quantity = ri_quantity i,
                               si_mrp = si_mrp original_stock,
                               si_base_cost_price = si_base_cost_price original_stock,
                               si_discount_percentage = si_discount_percentage original_stock,
                               si_gst_percentage = si_gst_percentage original_stock,
                               si_cost_price = si_cost_price original_stock,
                               si_source = REPLACEMENT\<rparr> of
                         Inl e \<Rightarrow> Inl e
                       | Inr (new_stock_item, d1) \<Rightarrow>
                           Inr (i\<lparr>ri_created_stock_item := Some (si_pk new_stock_item)\<rparr>, d1))))
            else Inr (i, d)) of
        Inl e \<Rightarrow> Inl e
      | Inr (i1, d1) \<Rightarrow>
         (let (i', rows) = save_row ri_pk (\<lambda>k r. r\<lparr>ri_pk := k\<rparr>) (replacement_items d1) i1;
              d2 = d1\<lparr>replacement_items := rows\<rparr>
          in case get_PurchaseReturn d2 (ri_purchase_return i') of
               None \<Rightarrow> Inl DoesNotExist
             | Some r \<Rightarrow> Inr (i', snd (PurchaseReturn_update_status d2 r))))"

subsection \<open>SupplierRefund.save and the credit note it raises\<close>

text \<open>The supplier \<^verbatim>\<open>create_credit_on_refund\<close> settles on: the one of the purchase
  order if the refund has an order, else the one of the returned batch if the refund has
  a return, else none. (The supplier of an order is not nullable, that of a batch is.)\<close>

definition refund_supplier :: "db \<Rightarrow> SupplierRefund \<Rightarrow> error + pk option" where
  "refund_supplier d f =
     (case sr_purchase_order f of
        Some k \<Rightarrow>
          (case get_PurchaseOrder d k of
             None \<Rightarrow> Inl DoesNotExist
           | Some po \<Rightarrow> Inr (Some (po_supplier po)))
      | None \<Rightarrow>
          (case sr_purchase_return f of
             None \<Rightarrow> Inr None
           | Some rk \<Rightarrow>
              (case get_PurchaseReturn d rk of
                 None \<Rightarrow> Inl DoesNotExist
               | Some r \<Rightarrow>
                  (case get_StockItem d (pr_stock_item r) of
                     None \<Rightarrow> Inl DoesNotExist
                   | Some s \<Rightarrow> Inr (si_supplier s)))))"

text \<open>\<^verbatim>\<open>create_credit_on_refund\<close> (post\_save of SupplierRefund). The notes of the
  credit are formatted from \<^verbatim>\<open>instance.purchase_return.pk\<close>, which raises when the
  refund has no return.\<close>

definition create_credit_on_refund :: "db \<Rightarrow> SupplierRefund \<Rightarrow> bool \<Rightarrow> error + db" where
  "create_credit_on_refund d instance created =
     (if created then
        (case refund_supplier d instance of
           Inl e \<Rightarrow> Inl e
         | Inr None \<Rightarrow> Inr d
         | Inr (Some supplier) \<Rightarrow>
            (case sr_purchase_return instance of
               None \<Rightarrow> Inl AttributeError
             | Some rk \<Rightarrow>
                 Inr (d\<lparr>supplier_credits := supplier_credits d @
                        [\<lparr>sc_pk = new_pk sc_pk (supplier_credits d),
                          sc_supplier = supplier,
                          sc_source_refund = sr_pk instance,
                          sc_initial_amount = sr_amount instance,
                          sc_balance = sr_amount instance,
                          sc_is_fully_used = False\<rparr>]\<rparr>)))
      else Inr d)"

text \<open>\<^verbatim>\<open>SupplierRefund.save\<close>, one atomic block: an exception inside it leaves the
  store as it was, which is what the result \<open>Inl\<close> stands for.\<close>

definition SupplierRefund_save :: "db \<Rightarrow> SupplierRefund \<Rightarrow> error + (SupplierRefund \<times> db)" where
  "SupplierRefund_save d f =
     (let created = (sr_pk f = 0 \<or> (\<forall>x \<in> set (supplier_refunds d). sr_pk x \<noteq> sr_pk f));
          (f', rows) = save_row sr_pk (\<lambda>k r. r\<lparr>sr_pk := k\<rparr>) (supplier_refunds d) f;
          d1 = d\<lparr>supplier_refunds := rows\<rparr>
      in case create_credit_on_refund d1 f' created of
           Inl e \<Rightarrow> Inl e
         | Inr d2 \<Rightarrow>
            (case (case sr_purchase_return f' of
                     None \<Rightarrow> Inr d2
                   | Some rk \<Rightarrow>
                      (case get_PurchaseReturn d2 rk of
                         None \<Rightarrow> Inl DoesNotExist
                       | Some r \<Rightarrow> Inr (snd (PurchaseReturn_update_status d2 r)))) of
               Inl e \<Rightarrow> Inl e
             | Inr d3 \<Rightarrow>
                (case sr_purchase_order f' of
                   None \<Rightarrow> Inr (f', d3)
                 | Some k \<Rightarrow>
                    (case get_PurchaseOrder d3 k of
                       None \<Rightarrow> Inl DoesNotExist
                     | Some po \<Rightarrow> Inr (f', snd (PurchaseOrder_update_status d3 po))))))"

subsection \<open>SupplierCredit and CreditApplication\<close>

definition get_SupplierCredit :: "db \<Rightarrow> pk \<Rightarrow> SupplierCredit option" where
  "get_SupplierCredit d k = get_row sc_pk (supplier_credits d) k"




subsection \<open>PurchaseOrder: totals\<close>

definition get_PurchaseOrderItem :: "db \<Rightarrow> pk \<Rightarrow> PurchaseOrderItem option" where
  "get_PurchaseOrderItem d k = get_row poi_pk (purchase_order_items d) k"

text \<open>\<^verbatim>\<open>StockItem.objects.filter(purchase_order_item__purchase_order=self)\<close>: the
  batches whose order item exists and belongs to the order.\<close>

definition stock_items_of_po :: "db \<Rightarrow> PurchaseOrder \<Rightarrow> StockItem list" where
  "stock_items_of_po d po =
     filter (\<lambda>s. case si_purchase_order_item s of
                    None \<Rightarrow> False
                  | Some i \<Rightarrow> (case get_PurchaseOrderItem d i of
                                 None \<Rightarrow> False
                               | Some it \<Rightarrow> poi_purchase_order it = po_pk po))
            (stock_items d)"

definition grand_total :: "db \<Rightarrow> PurchaseOrder \<Rightarrow> money" where
  "grand_total d po = Sum (\<lambda>s. int (si_quantity s) * si_cost_price s) (stock_items_of_po d po)"




subsection \<open>PurchaseOrder.\_get\_all\_related\_returns\<close>

definition returns_of_po :: "db \<Rightarrow> PurchaseOrder \<Rightarrow> PurchaseReturn list" where
  "returns_of_po d po =
     filter (\<lambda>r. pr_purchase_order r = Some (po_pk po)) (purchase_returns d)"

text \<open>\<^verbatim>\<open>ReplacementItem.objects.filter(purchase_return__in=returns_to_check)\<close>\<close>

definition replacements_of :: "db \<Rightarrow> PurchaseReturn list \<Rightarrow> ReplacementItem list" where
  "replacements_of d rs =
     filter (\<lambda>i. ri_purchase_return i \<in> pr_pk ` set rs) (replacement_items d)"

text \<open>\<^verbatim>\<open>[rep.created_stock_item for rep in replacements if rep.created_stock_item]\<close>\<close>

definition created_stock_items :: "ReplacementItem list \<Rightarrow> pk list" where
  "created_stock_items reps = List.map_filter ri_created_stock_item reps"

text \<open>\<^verbatim>\<open>PurchaseReturn.objects.filter(stock_item__in=replacement_stock_items)
  .exclude(pk__in=processed_return_pks)\<close>\<close>

definition nested_returns :: "db \<Rightarrow> pk list \<Rightarrow> pk set \<Rightarrow> PurchaseReturn list" where
  "nested_returns d stock processed =
     filter (\<lambda>r. pr_stock_item r \<in> set stock \<and> pr_pk r \<notin> processed) (purchase_returns d)"

text \<open>The \<^verbatim>\<open>for nr in nested_returns\<close> loop, on the three variables it updates.\<close>

fun add_newly_found ::
  "PurchaseReturn list \<Rightarrow> PurchaseReturn list \<Rightarrow> PurchaseReturn list \<Rightarrow> pk set
   \<Rightarrow> PurchaseReturn list \<times> PurchaseReturn list \<times> pk set" where
  "add_newly_found [] all_returns newly processed = (all_returns, newly, processed)"
| "add_newly_found (nr # rest) all_returns newly processed =
     (if pr_pk nr \<notin> processed
      then add_newly_found rest (all_returns @ [nr]) (newly @ [nr]) (insert (pr_pk nr) processed)
      else add_newly_found rest all_returns newly processed)"

text \<open>The \<^verbatim>\<open>while returns_to_check\<close> loop, with its three \<^verbatim>\<open>break\<close>s.\<close>

function related_returns_loop ::
  "db \<Rightarrow> PurchaseReturn list \<Rightarrow> PurchaseReturn list \<Rightarrow> pk set \<Rightarrow> PurchaseReturn list" where
  "related_returns_loop d all_returns returns_to_check processed =
     (if returns_to_check = [] then all_returns
      else if replacements_of d returns_to_check = [] then all_returns
      else if created_stock_items (replacements_of d returns_to_check) = [] then all_returns
      else
        (case add_newly_found
                (nested_returns d (created_stock_items (replacements_of d returns_to_check))
                   processed)
                all_returns [] processed of
           (all_returns', newly_found_returns, processed') \<Rightarrow>
             if newly_found_returns = [] then all_returns'
             else related_returns_loop d all_returns' newly_found_returns processed'))"
  by pat_completeness auto
termination
proof (relation "measure (\<lambda>(d, a, c, p). card (pr_pk ` set (purchase_returns d) - p))")
  show "wf (measure (\<lambda>(d, a, c, p). card (pr_pk ` set (purchase_returns d) - p)))"
    by simp
next
  fix d :: db and all_returns returns_to_check :: "PurchaseReturn list" and processed :: "pk set"
    and x all_returns' y newly_found_returns processed'
  assume eq: "(all_returns', y) =
        add_newly_found
          (nested_returns d (created_stock_items (replacements_of d returns_to_check)) processed)
          all_returns [] processed"
    and y: "(newly_found_returns, processed') = y"
    and ne: "newly_found_returns \<noteq> []"
  let ?ns = "nested_returns d (created_stock_items (replacements_of d returns_to_check)) processed"
  let ?P = "pr_pk ` set (purchase_returns d)"
  have run: "add_newly_found ?ns all_returns [] processed
               = (all_returns', newly_found_returns, processed')"
    using eq y by simp
  have grows: "p' = p \<union> pr_pk ` set ns"
    if "add_newly_found ns a nw p = (a', nw', p')" for ns a nw p a' nw' p'
    using that by (induction ns arbitrary: a nw p) (auto split: if_splits)
  have finds: "\<exists>n \<in> set ns. pr_pk n \<notin> p"
    if "add_newly_found ns a nw p = (a', nw', p')" "nw' \<noteq> nw" for ns a nw p a' nw' p'
    using that
  proof (induction ns arbitrary: a nw p)
    case Nil
    then show ?case by simp
  next
    case (Cons n ns)
    show ?case
    proof (cases "pr_pk n \<in> p")
      case True
      with Cons.prems have "add_newly_found ns a nw p = (a', nw', p')" by simp
      from Cons.IH[OF this Cons.prems(2)] show ?thesis by auto
    next
      case False
      then show ?thesis by auto
    qed
  qed
  have p': "processed' = processed \<union> pr_pk ` set ?ns"
    by (rule grows[OF run])
  obtain n where n: "n \<in> set ?ns" "pr_pk n \<notin> processed"
    using finds[OF run] ne by auto
  have sub: "set ?ns \<subseteq> set (purchase_returns d)"
    by (auto simp: nested_returns_def)
  have "?P - processed' \<subset> ?P - processed"
    using n sub p' by auto
  then have "card (?P - processed') < card (?P - processed)"
    by (intro psubset_card_mono) auto
  then show "((d, all_returns', newly_found_returns, processed'),
              (d, all_returns, returns_to_check, processed))
             \<in> measure (\<lambda>(d, a, c, p). card (pr_pk ` set (purchase_returns d) - p))"
    by simp
qed

definition get_all_related_returns :: "db \<Rightarrow> PurchaseOrder \<Rightarrow> PurchaseReturn list" where
  "get_all_related_returns d po =
     (let direct_returns = returns_of_po d po
      in related_returns_loop d direct_returns direct_returns (pr_pk ` set direct_returns))"

section \<open>The operations of billing/views.py and the forms that guard them\<close>

text \<open>
  A view is modelled on a POST request whose fields have been parsed: a field that is
  missing or does not parse is \<open>None\<close>. The result \<open>Inl e\<close> is an exception that leaves
  the view (a 404 among them); every write of these views sits in an atomic block, so the
  store is then the one before the request. The result \<open>Inr d'\<close> is a response with the
  store \<open>d'\<close>: the redirect after success, or the form shown again with its errors and
  \<open>d' = d\<close>.
\<close>

subsection \<open>create\_return\_view and UnifiedReturnForm\<close>

text \<open>\<^verbatim>\<open>UnifiedReturnForm.clean_quantity\<close> compares a quantity that is not 0 with
  \<^verbatim>\<open>quantity_available\<close> of the batch.\<close>

definition UnifiedReturnForm_is_valid :: "db \<Rightarrow> StockItem \<Rightarrow> int option \<Rightarrow> bool" where
  "UnifiedReturnForm_is_valid d stock_item quantity =
     (case quantity of
        None \<Rightarrow> False
      | Some q \<Rightarrow> 0 \<le> q \<and> \<not> (q \<noteq> 0 \<and> q > quantity_available d stock_item))"

definition create_return_view :: "db \<Rightarrow> pk \<Rightarrow> int option \<Rightarrow> error + db" where
  "create_return_view d stock_item_pk quantity =
     (case get_StockItem d stock_item_pk of
        None \<Rightarrow> Inl Http404
      | Some stock_item \<Rightarrow>
         (if \<not> UnifiedReturnForm_is_valid d stock_item quantity then Inr d
          else
            (case (case si_purchase_order_item stock_item of
                     None \<Rightarrow> Inr None
                   | Some ik \<Rightarrow>
                      (case get_PurchaseOrderItem d ik of
                         None \<Rightarrow> Inl DoesNotExist
                       | Some it \<Rightarrow> Inr (Some (poi_purchase_order it)))) of
               Inl e \<Rightarrow> Inl e
             | Inr po \<Rightarrow>
                 Inr (d\<lparr>purchase_returns :=
                        snd (save_row pr_pk (\<lambda>k r. r\<lparr>pr_pk := k\<rparr>) (purchase_returns d)
                               \<lparr>pr_pk = 0, pr_purchase_order = po,
                                pr_stock_item = si_pk stock_item,
                                pr_quantity = nat (the quantity),
                                pr_status = PR_PENDING\<rparr>)\<rparr>))))"

subsection \<open>add\_supplier\_refund\_view, create\_general\_refund\_view and their forms\<close>

text \<open>\<^verbatim>\<open>SupplierRefundForm.clean_amount\<close> and
  \<^verbatim>\<open>GeneralSupplierRefundForm.clean_amount\<close> are the same code.\<close>

definition SupplierRefundForm_is_valid :: "db \<Rightarrow> PurchaseReturn \<Rightarrow> money option \<Rightarrow> bool" where
  "SupplierRefundForm_is_valid d purchase_return amount =
     (case amount of
        None \<Rightarrow> False
      | Some a \<Rightarrow> money_field_ok a \<and> \<not> a \<le> 0 \<and> \<not> a > value_pending_action d purchase_return)"

definition add_supplier_refund_view :: "db \<Rightarrow> pk \<Rightarrow> pk \<Rightarrow> money option \<Rightarrow> error + db" where
  "add_supplier_refund_view d po_key return_pk amount =
     (case get_PurchaseOrder d po_key of
        None \<Rightarrow> Inl Http404
      | Some purchase_order \<Rightarrow>
         (case get_PurchaseReturn d return_pk of
            None \<Rightarrow> Inl Http404
          | Some purchase_return \<Rightarrow>
             (if pr_purchase_order purchase_return \<noteq> Some (po_pk purchase_order) then Inl Http404
              else if value_pending_action d purchase_return \<le> 0 then Inr d
              else if \<not> SupplierRefundForm_is_valid d purchase_return amount then Inr d
              else
                (case SupplierRefund_save d
                        \<lparr>sr_pk = 0, sr_purchase_order = Some (po_pk purchase_order),
                         sr_purchase_return = Some (pr_pk purchase_return),
                         sr_amount = the amount\<rparr> of
                   Inl e \<Rightarrow> Inl e
                 | Inr (refund, d') \<Rightarrow> Inr d'))))"


subsection \<open>receive\_replacement\_view and ReplacementStockForm\<close>

record ReplacementStockForm =
  rsf_quantity :: "int option"
  rsf_batch_number :: string
  rsf_expiry_date :: "nat option"

text \<open>\<^verbatim>\<open>purchase_return.stock_item.product_variant.product.requires_expiry_tracking\<close>\<close>

definition return_requires_expiry :: "db \<Rightarrow> PurchaseReturn \<Rightarrow> error + bool" where
  "return_requires_expiry d r =
     (case get_StockItem d (pr_stock_item r) of
        None \<Rightarrow> Inl DoesNotExist
      | Some s \<Rightarrow>
         (case get_row pv_pk (product_variants d) (si_product_variant s) of
            None \<Rightarrow> Inl DoesNotExist
          | Some v \<Rightarrow>
             (case get_row p_pk (products d) (pv_product v) of
                None \<Rightarrow> Inl DoesNotExist
              | Some p \<Rightarrow> Inr (p_requires_expiry_tracking p))))"

text \<open>The form is valid when no field and no \<^verbatim>\<open>clean\<close> method reports an error:
  the quantity is at least 1 and at most \<^verbatim>\<open>quantity_pending_action\<close>, the stripped
  batch number is not empty, the expiry date is not before \<open>today\<close>, and it is given
  when the product requires one.\<close>

definition ReplacementStockForm_is_valid ::
  "db \<Rightarrow> PurchaseReturn \<Rightarrow> nat \<Rightarrow> ReplacementStockForm \<Rightarrow> error + bool" where
  "ReplacementStockForm_is_valid d purchase_return today form =
     (case quantity_pending_action d purchase_return of
        Inl e \<Rightarrow> Inl e
      | Inr pending \<Rightarrow>
         (case return_requires_expiry d purchase_return of
            Inl e \<Rightarrow> Inl e
          | Inr required \<Rightarrow>
              Inr ((case rsf_quantity form of None \<Rightarrow> False | Some q \<Rightarrow> 1 \<le> q \<and> \<not> q > pending)
                   \<and> strip (rsf_batch_number form) \<noteq> []
                   \<and> length (strip (rsf_batch_number form)) \<le> 100
                   \<and> (case rsf_expiry_date form of None \<Rightarrow> True | Some e \<Rightarrow> \<not> e < today)
                   \<and> \<not> (required \<and> rsf_expiry_date form = None))))"

definition receive_replacement_view ::
  "db \<Rightarrow> pk \<Rightarrow> nat \<Rightarrow> ReplacementStockForm \<Rightarrow> error + db" where
  "receive_replacement_view d return_pk today form =
     (case get_PurchaseReturn d return_pk of
        None \<Rightarrow> Inl Http404
      | Some purchase_return \<Rightarrow>
         (case quantity_pending_action d purchase_return of
            Inl e \<Rightarrow> Inl e
          | Inr pending \<Rightarrow>
             (if pending \<le> 0 then Inr d
              else
                (case ReplacementStockForm_is_valid d purchase_return today form of
                   Inl e \<Rightarrow> Inl e
                 | Inr False \<Rightarrow> Inr d
                 | Inr True \<Rightarrow>
                    (case ReplacementItem_save d
                            \<lparr>ri_pk = 0, ri_purchase_return = pr_pk purchase_return,
                             ri_quantity = nat (the (rsf_quantity form)),
                             ri_created_stock_item = None,
                             ri_batch_number = strip (rsf_batch_number form),
                             ri_expiry_date = rsf_expiry_date form\<rparr> of
                       Inl e \<Rightarrow> Inl e
                     | Inr (replacement, d') \<Rightarrow> Inr d')))))"

subsection \<open>apply\_supplier\_credit\_view\<close>


subsection \<open>receive\_purchase\_order\_view, ReceiveStockForm and the formset\<close>

record ReceiveStockForm =
  rs_purchase_order_item_id :: "pk option"
  rs_quantity_to_receive :: "int option"
  rs_mrp :: "money option"
  rs_base_cost_price :: "money option"
  rs_discount_percentage :: "int option"
  rs_discount_amount :: "money option"
  rs_gst_percentage :: "int option"
  rs_batch_number :: string
  rs_expiry_date :: "nat option"
  rs_date_received :: "nat option"

text \<open>\<^verbatim>\<open>x.quantize(Decimal('0.01'))\<close> on a number of hundredths: the nearest integer,
  a tie going to the even one (the rounding of the default decimal context). The
  arithmetic on percentages below is exact, on rationals; Python's \<^verbatim>\<open>Decimal\<close>
  carries 28 significant digits, which the products here do not exceed and to which a
  quotient is rounded.\<close>

definition quantize :: "rat \<Rightarrow> int" where
  "quantize x =
     (let f = \<lfloor>x\<rfloor>; r = x - of_int f
      in if r < 1 / 2 then f else if r > 1 / 2 then f + 1 else if even f then f else f + 1)"

text \<open>Python's truth value of an optional number: \<^verbatim>\<open>None\<close> and 0 are false.\<close>

definition truthy :: "int option \<Rightarrow> bool" where
  "truthy x = (case x of None \<Rightarrow> False | Some v \<Rightarrow> v \<noteq> 0)"

text \<open>The discount as a percentage (in hundredths of a percent), as
  \<^verbatim>\<open>ReceiveStockForm.clean\<close> computes it, not rounded.\<close>

definition form_discount_percentage :: "ReceiveStockForm \<Rightarrow> int \<Rightarrow> money \<Rightarrow> rat" where
  "form_discount_percentage form qty base_cost =
     (case rs_discount_percentage form of
        Some p \<Rightarrow> of_int p
      | None \<Rightarrow>
         (case rs_discount_amount form of
            Some a \<Rightarrow>
              (if qty > 0 \<and> base_cost > 0
               then (of_int a / of_int qty) / of_int base_cost * 10000 else 0)
          | None \<Rightarrow> 0))"

definition cost_with_gst :: "money \<Rightarrow> rat \<Rightarrow> int \<Rightarrow> rat" where
  "cost_with_gst base_cost discount_percentage gst_percentage =
     (let cost_after_discount = of_int base_cost * (1 - discount_percentage / 10000)
      in cost_after_discount * (1 + of_int gst_percentage / 10000))"

text \<open>\<^verbatim>\<open>purchase_order_item.product_variant\<close> and its product.\<close>

definition item_variant :: "db \<Rightarrow> PurchaseOrderItem \<Rightarrow> error + ProductVariant" where
  "item_variant d it =
     (case get_row pv_pk (product_variants d) (poi_product_variant it) of
        None \<Rightarrow> Inl DoesNotExist | Some v \<Rightarrow> Inr v)"

definition item_requires_expiry :: "db \<Rightarrow> PurchaseOrderItem \<Rightarrow> error + bool" where
  "item_requires_expiry d it =
     (case item_variant d it of
        Inl e \<Rightarrow> Inl e
      | Inr v \<Rightarrow>
         (case get_row p_pk (products d) (pv_product v) of
            None \<Rightarrow> Inl DoesNotExist
          | Some p \<Rightarrow> Inr (p_requires_expiry_tracking p)))"

definition quantity_remaining :: "PurchaseOrderItem \<Rightarrow> int" where
  "quantity_remaining it = int (poi_quantity it) - int (poi_quantity_received it)"

text \<open>The validation of the fields of a \<^verbatim>\<open>ReceiveStockForm\<close>, with
  \<^verbatim>\<open>clean_expiry_date\<close> and \<^verbatim>\<open>clean_date_received\<close>. The form knows the order
  item of its position in the formset, if there is one.\<close>

definition ReceiveStockForm_fields_valid ::
  "db \<Rightarrow> nat \<Rightarrow> nat \<Rightarrow> PurchaseOrderItem option \<Rightarrow> ReceiveStockForm \<Rightarrow> error + bool" where
  "ReceiveStockForm_fields_valid d today now purchase_order_item form =
     (case (case (purchase_order_item, rs_date_received form) of
              (Some it, Some t) \<Rightarrow>
                (case get_PurchaseOrder d (poi_purchase_order it) of
                   None \<Rightarrow> Inl DoesNotExist
                 | Some po \<Rightarrow> Inr (\<not> t < po_order_date po))
            | _ \<Rightarrow> Inr True) of
        Inl e \<Rightarrow> Inl e
      | Inr not_before_order \<Rightarrow>
          Inr (rs_purchase_order_item_id form \<noteq> None
               \<and> (case rs_quantity_to_receive form of None \<Rightarrow> True | Some q \<Rightarrow> 1 \<le> q)
               \<and> (case rs_mrp form of None \<Rightarrow> True | Some v \<Rightarrow> money_field_ok v)
               \<and> (case rs_base_cost_price form of None \<Rightarrow> True | Some v \<Rightarrow> money_field_ok v)
               \<and> (case rs_discount_amount form of None \<Rightarrow> True | Some v \<Rightarrow> money_field_ok v)
               \<and> (case rs_discount_percentage form of None \<Rightarrow> True | Some v \<Rightarrow> percent_field_ok v)
               \<and> (case rs_gst_percentage form of None \<Rightarrow> True | Some v \<Rightarrow> percent_field_ok v)
               \<and> length (strip (rs_batch_number form)) \<le> 100
               \<and> (case rs_expiry_date form of None \<Rightarrow> True | Some e \<Rightarrow> \<not> e < today)
               \<and> (case rs_date_received form of None \<Rightarrow> True | Some t \<Rightarrow> \<not> t > now)
               \<and> not_before_order))"

text \<open>\<^verbatim>\<open>ReceiveStockForm.clean\<close>, on fields that are valid: whether it adds no error.
  Without a quantity nothing is checked.\<close>

definition ReceiveStockForm_clean_ok ::
  "db \<Rightarrow> PurchaseOrderItem option \<Rightarrow> ReceiveStockForm \<Rightarrow> error + bool" where
  "ReceiveStockForm_clean_ok d purchase_order_item form =
     (case rs_quantity_to_receive form of
        None \<Rightarrow> Inr True
      | Some qty \<Rightarrow>
         (if qty \<le> 0 then Inr True
          else
            (case (case purchase_order_item of
                     None \<Rightarrow> Inr (False, rs_mrp form)
                   | Some it \<Rightarrow>
                      (case item_requires_expiry d it of
                         Inl e \<Rightarrow> Inl e
                       | Inr required \<Rightarrow>
                          (case item_variant d it of
                             Inl e \<Rightarrow> Inl e
                           | Inr v \<Rightarrow>
                              Inr (required,
                                   (if rs_mrp form = None then Some (pv_price v)
                                    else rs_mrp form))))) of
               Inl e \<Rightarrow> Inl e
             | Inr (expiry_required, mrp) \<Rightarrow>
                 (let base_cost = rs_base_cost_price form;
                      discount_perc = rs_discount_percentage form;
                      discount_amt = rs_discount_amount form;
                      gst_perc = (case rs_gst_percentage form of None \<Rightarrow> 0 | Some g \<Rightarrow> g)
                  in Inr (\<not> (expiry_required \<and> rs_expiry_date form = None)
                          \<and> truthy base_cost
                          \<and> strip (rs_batch_number form) \<noteq> []
                          \<and> \<not> (truthy base_cost \<and> truthy mrp \<and> the base_cost > the mrp)
                          \<and> \<not> (truthy discount_perc \<and> truthy discount_amt
                                \<and> the discount_perc > 0 \<and> the discount_amt > 0)
                          \<and> \<not> (truthy base_cost \<and> truthy discount_amt
                                \<and> the discount_amt > the base_cost * qty)
                          \<and> \<not> (truthy base_cost \<and> truthy mrp
                                \<and> cost_with_gst (the base_cost)
                                      (form_discount_percentage form qty (the base_cost)) gst_perc
                                    > of_int (the mrp))
                          \<and> (case purchase_order_item of
                                None \<Rightarrow> True
                              | Some it \<Rightarrow> \<not> qty > quantity_remaining it))))))"

definition ReceiveStockForm_is_valid ::
  "db \<Rightarrow> nat \<Rightarrow> nat \<Rightarrow> PurchaseOrderItem option \<Rightarrow> ReceiveStockForm \<Rightarrow> error + bool" where
  "ReceiveStockForm_is_valid d today now purchase_order_item form =
     (case ReceiveStockForm_fields_valid d today now purchase_order_item form of
        Inl e \<Rightarrow> Inl e
      | Inr False \<Rightarrow> Inr False
      | Inr True \<Rightarrow> ReceiveStockForm_clean_ok d purchase_order_item form)"

text \<open>\<^verbatim>\<open>ReceiveStockFormSet.is_valid\<close>: every form is valid; the form at index \<open>i\<close>
  gets \<^verbatim>\<open>items_to_receive[i]\<close> when there is one
  (\<^verbatim>\<open>BaseReceiveStockFormSet.get_form_kwargs\<close>).\<close>

fun ReceiveStockFormSet_is_valid ::
  "db \<Rightarrow> nat \<Rightarrow> nat \<Rightarrow> PurchaseOrderItem list \<Rightarrow> ReceiveStockForm list \<Rightarrow> error + bool" where
  "ReceiveStockFormSet_is_valid d today now items [] = Inr True"
| "ReceiveStockFormSet_is_valid d today now items (form # forms) =
     (case ReceiveStockForm_is_valid d today now (case items of [] \<Rightarrow> None | it # _ \<Rightarrow> Some it) form of
        Inl e \<Rightarrow> Inl e
      | Inr ok \<Rightarrow>
         (case ReceiveStockFormSet_is_valid d today now (tl items) forms of
            Inl e \<Rightarrow> Inl e
          | Inr oks \<Rightarrow> Inr (ok \<and> oks)))"

text \<open>The discount percentage and the final cost of a unit as the view computes them,
  each rounded to two places.\<close>

definition final_discount_percentage :: "ReceiveStockForm \<Rightarrow> int \<Rightarrow> money \<Rightarrow> int" where
  "final_discount_percentage form qty_to_receive base_cost =
     (case rs_discount_percentage form of
        Some p \<Rightarrow> p
      | None \<Rightarrow>
         (case rs_discount_amount form of
            Some a \<Rightarrow>
              (if qty_to_receive > 0 \<and> base_cost > 0
               then quantize ((of_int a / of_int qty_to_receive) / of_int base_cost * 10000)
               else 0)
          | None \<Rightarrow> 0))"

definition received_stock_item ::
  "PurchaseOrder \<Rightarrow> PurchaseOrderItem \<Rightarrow> ReceiveStockForm \<Rightarrow> int \<Rightarrow> StockItem" where
  "received_stock_item po po_item form qty_to_receive =
     (let base_cost = (case rs_base_cost_price form of None \<Rightarrow> 0 | Some b \<Rightarrow> b);
          gst_perc = (case rs_gst_percentage form of None \<Rightarrow> 0 | Some g \<Rightarrow> g);
          discount = final_discount_percentage form qty_to_receive base_cost
      in \<lparr>si_pk = 0,
          si_product_variant = poi_product_variant po_item,
          si_supplier = Some (po_supplier po),
          si_purchase_order_item = Some (poi_pk po_item),
          si_batch_number = strip (rs_batch_number form),
          si_expiry_date = rs_expiry_date form,
          si_quantity = nat qty_to_receive,
          si_mrp = (case rs_mrp form of None \<Rightarrow> 0 | Some m \<Rightarrow> m),
          si_base_cost_price = base_cost,
          si_discount_percentage = discount,
          si_gst_percentage = gst_perc,
          si_cost_price = quantize (cost_with_gst base_cost (of_int discount) gst_perc),
          si_source = PURCHASE_ORDER\<rparr>)"

text \<open>\<^verbatim>\<open>po_item.quantity_received += int(qty_to_receive)\<close> and
  \<^verbatim>\<open>po_item.save(update_fields=['quantity_received'])\<close>\<close>

definition save_quantity_received :: "db \<Rightarrow> PurchaseOrderItem \<Rightarrow> nat \<Rightarrow> db" where
  "save_quantity_received d po_item received =
     d\<lparr>purchase_order_items :=
         map (\<lambda>x. if poi_pk x = poi_pk po_item
                   then x\<lparr>poi_quantity_received := received\<rparr> else x)
             (purchase_order_items d)\<rparr>"

text \<open>\<^verbatim>\<open>update_po_on_item_save\<close> (post\_save of PurchaseOrderItem)\<close>

definition update_po_on_item_save :: "db \<Rightarrow> PurchaseOrderItem \<Rightarrow> error + db" where
  "update_po_on_item_save d instance =
     (case get_PurchaseOrder d (poi_purchase_order instance) of
        None \<Rightarrow> Inl DoesNotExist
      | Some po \<Rightarrow> Inr (snd (PurchaseOrder_update_status d po)))"

text \<open>A line of the submission is processed when it carries a positive quantity.\<close>

definition requested :: "ReceiveStockForm \<Rightarrow> bool" where
  "requested form = (case rs_quantity_to_receive form of None \<Rightarrow> False | Some q \<Rightarrow> 0 < q)"

text \<open>The loop \<^verbatim>\<open>for form in formset.forms\<close> of the view. The first component of
  the result is the store as the writes made so far have left it; the second is the
  exception that ended the loop, if one did.\<close>

fun receive_forms :: "db \<Rightarrow> PurchaseOrder \<Rightarrow> ReceiveStockForm list \<Rightarrow> db \<times> error option" where
  "receive_forms d po [] = (d, None)"
| "receive_forms d po (form # forms) =
     (if \<not> requested form then receive_forms d po forms
      else
        (case (case rs_purchase_order_item_id form of
                 None \<Rightarrow> None | Some k \<Rightarrow> get_PurchaseOrderItem d k) of
           None \<Rightarrow> (d, Some Http404)
         | Some po_item \<Rightarrow>
            (case StockItem_create d
                    (received_stock_item po po_item form (the (rs_quantity_to_receive form))) of
               Inl e \<Rightarrow> (d, Some e)
             | Inr (stock_item, d1) \<Rightarrow>
                (let d2 = save_quantity_received d1 po_item
                            (poi_quantity_received po_item
                               + nat (the (rs_quantity_to_receive form)))
                 in case update_po_on_item_save d2 po_item of
                      Inl e \<Rightarrow> (d2, Some e)
                    | Inr d3 \<Rightarrow> receive_forms d3 po forms))))"

datatype response = Redirect_received | Redirect_already_received | Render_form_with_errors

text \<open>The body of the view, on a POST request.\<close>

definition receive_purchase_order_view_body ::
  "pk \<Rightarrow> nat \<Rightarrow> nat \<Rightarrow> ReceiveStockForm list \<Rightarrow> db \<Rightarrow> db \<times> (error + response)" where
  "receive_purchase_order_view_body key today now forms d =
     (case get_PurchaseOrder d key of
        None \<Rightarrow> (d, Inl Http404)
      | Some po \<Rightarrow>
         (let items_to_receive =
                filter (\<lambda>i. poi_quantity_received i < poi_quantity i) (po_items d po)
          in if items_to_receive = [] then (d, Inr Redirect_already_received)
             else
               (case ReceiveStockFormSet_is_valid d today now items_to_receive forms of
                  Inl e \<Rightarrow> (d, Inl e)
                | Inr False \<Rightarrow> (d, Inr Render_form_with_errors)
                | Inr True \<Rightarrow>
                   (case receive_forms d po forms of
                      (d1, Some e) \<Rightarrow> (d1, Inl e)
                    | (d1, None) \<Rightarrow>
                       (case get_PurchaseOrder d1 key of
                          None \<Rightarrow> (d1, Inl DoesNotExist)
                        | Some po1 \<Rightarrow>
                            (snd (PurchaseOrder_update_status d1 po1), Inr Redirect_received))))))"

text \<open>\<^verbatim>\<open>@transaction.atomic\<close>: when the body ends in an exception, its writes are
  rolled back and the store is the one before the call.\<close>

definition transaction_atomic ::
  "(db \<Rightarrow> db \<times> (error + 'a)) \<Rightarrow> db \<Rightarrow> db \<times> (error + 'a)" where
  "transaction_atomic body d =
     (case body d of
        (d', Inl e) \<Rightarrow> (d, Inl e)
      | (d', Inr r) \<Rightarrow> (d', Inr r))"

definition receive_purchase_order_view ::
  "db \<Rightarrow> pk \<Rightarrow> nat \<Rightarrow> nat \<Rightarrow> ReceiveStockForm list \<Rightarrow> db \<times> (error + response)" where
  "receive_purchase_order_view d key today now forms =
     transaction_atomic (receive_purchase_order_view_body key today now forms) d"


section \<open>Invariants, runs of operations and example stores\<close>

subsection \<open>A cancelled order\<close>


subsection \<open>Supplier credits\<close>




subsection \<open>An example store\<close>

text \<open>Two purchase orders of one supplier, each with one line fully received as one
  batch at a cost of 10.00 a unit (100 units for order 1, 50 units for order 2), and one
  invoice without lines.\<close>

definition ex_db :: db where
  "ex_db = empty_db\<lparr>
     products := [\<lparr>p_pk = 1, p_requires_expiry_tracking = False\<rparr>],
     product_variants := [\<lparr>pv_pk = 1, pv_product = 1, pv_price = 1500\<rparr>],
     stock_items :=
       [\<lparr>si_pk = 1, si_product_variant = 1, si_supplier = Some 1, si_purchase_order_item = Some 1,
         si_batch_number = ''BATCH001'', si_expiry_date = None, si_quantity = 100, si_mrp = 1500,
         si_base_cost_price = 1000, si_discount_percentage = 0, si_gst_percentage = 0,
         si_cost_price = 1000, si_source = PURCHASE_ORDER\<rparr>,
        \<lparr>si_pk = 2, si_product_variant = 1, si_supplier = Some 1, si_purchase_order_item = Some 2,
         si_batch_number = ''BATCH002'', si_expiry_date = None, si_quantity = 50, si_mrp = 1500,
         si_base_cost_price = 1000, si_discount_percentage = 0, si_gst_percentage = 0,
         si_cost_price = 1000, si_source = PURCHASE_ORDER\<rparr>],
     purchase_order_items :=
       [\<lparr>poi_pk = 1, poi_purchase_order = 1, poi_product_variant = 1,
         poi_quantity = 100, poi_quantity_received = 100\<rparr>,
        \<lparr>poi_pk = 2, poi_purchase_order = 2, poi_product_variant = 1,
         poi_quantity = 50, poi_quantity_received = 50\<rparr>],
     purchase_orders :=
       [\<lparr>po_pk = 1, po_supplier = 1, po_order_date = 0, po_status = PO_COMPLETED\<rparr>,
        \<lparr>po_pk = 2, po_supplier = 1, po_order_date = 0, po_status = PO_COMPLETED\<rparr>],
     invoices := [\<lparr>inv_pk = 1, inv_status = DRAFT, inv_total_amount = 0, inv_discount = 0\<rparr>]\<rparr>"

text \<open>The store after 20 units of batch 1 have been returned, and then after the
  whole value of that return, 200.00, has been refunded.\<close>

definition ex_return_db :: db where
  "ex_return_db = ex_db\<lparr>purchase_returns :=
      [\<lparr>pr_pk = 1, pr_purchase_order = Some 1, pr_stock_item = 1,
        pr_quantity = 20, pr_status = PR_PENDING\<rparr>]\<rparr>"

definition ex_credit_db :: db where
  "ex_credit_db = ex_db\<lparr>
     purchase_returns :=
      [\<lparr>pr_pk = 1, pr_purchase_order = Some 1, pr_stock_item = 1,
        pr_quantity = 20, pr_status = PR_FULLY_PROCESSED\<rparr>],
     supplier_refunds :=
      [\<lparr>sr_pk = 1, sr_purchase_order = Some 1, sr_purchase_return = Some 1, sr_amount = 20000\<rparr>],
     supplier_credits :=
      [\<lparr>sc_pk = 1, sc_supplier = 1, sc_source_refund = 1, sc_initial_amount = 20000,
        sc_balance = 20000, sc_is_fully_used = False\<rparr>]\<rparr>"

subsection \<open>Invoices\<close>

text \<open>An invoice that has not been saved yet, and the example store with one line of
  2 units at 15.00 and a payment of 10.00 on invoice 1.\<close>

definition new_invoice :: Invoice where
  "new_invoice = \<lparr>inv_pk = 0, inv_status = DRAFT, inv_total_amount = 0, inv_discount = 0\<rparr>"

definition ex_invoice_db :: db where
  "ex_invoice_db = ex_db\<lparr>
     invoice_items := [\<lparr>ii_pk = 1, ii_invoice = 1, ii_service = None, ii_stock_item = Some 1,
                        ii_quantity = 2, ii_unit_price = Some 1500, ii_discount = 0\<rparr>],
     invoice_payments := [\<lparr>ip_pk = 1, ip_invoice = 1, ip_amount = 1000\<rparr>]\<rparr>"

subsection \<open>Supplier refunds\<close>



subsection \<open>Stock consumption\<close>




subsection \<open>Returns related to a purchase order\<close>

text \<open>\<open>replaced_by d r r'\<close>: the return \<open>r'\<close> is made against a batch that a
  ReplacementItem of the return \<open>r\<close> created.\<close>

definition replaced_by :: "db \<Rightarrow> PurchaseReturn \<Rightarrow> PurchaseReturn \<Rightarrow> bool" where
  "replaced_by d r r' =
     (\<exists>i \<in> set (replacement_items d).
        ri_purchase_return i = pr_pk r \<and> ri_created_stock_item i = Some (pr_stock_item r'))"

text \<open>The returns reachable from an order: its direct returns and, transitively, the
  stored returns of replacement batches created for a return that is reachable.\<close>

inductive_set related_returns :: "db \<Rightarrow> PurchaseOrder \<Rightarrow> PurchaseReturn set"
  for d :: db and po :: PurchaseOrder where
  direct: "r \<in> set (returns_of_po d po) \<Longrightarrow> r \<in> related_returns d po"
| nested: "r \<in> related_returns d po \<Longrightarrow> r' \<in> set (purchase_returns d) \<Longrightarrow>
           replaced_by d r r' \<Longrightarrow> r' \<in> related_returns d po"


text \<open>The example store after 10 units of batch 1 have been returned (return 1) and
  replaced by a new batch 3, and then after 4 units of batch 3 have been returned
  (return 2).\<close>

definition ex_po1 :: PurchaseOrder where
  "ex_po1 = \<lparr>po_pk = 1, po_supplier = 1, po_order_date = 0, po_status = PO_COMPLETED\<rparr>"

definition ex_R1 :: PurchaseReturn where
  "ex_R1 = \<lparr>pr_pk = 1, pr_purchase_order = Some 1, pr_stock_item = 1,
             pr_quantity = 10, pr_status = PR_FULLY_PROCESSED\<rparr>"

definition ex_R2 :: PurchaseReturn where
  "ex_R2 = \<lparr>pr_pk = 2, pr_purchase_order = None, pr_stock_item = 3,
             pr_quantity = 4, pr_status = PR_PENDING\<rparr>"

definition ex_replaced_db :: db where
  "ex_replaced_db = ex_db\<lparr>
     stock_items := stock_items ex_db @
       [\<lparr>si_pk = 3, si_product_variant = 1, si_supplier = Some 1, si_purchase_order_item = None,
         si_batch_number = ''BATCH-B'', si_expiry_date = None, si_quantity = 10, si_mrp = 1500,
         si_base_cost_price = 1000, si_discount_percentage = 0, si_gst_percentage = 0,
         si_cost_price = 1000, si_source = REPLACEMENT\<rparr>],
     purchase_returns := [ex_R1],
     replacement_items :=
       [\<lparr>ri_pk = 1, ri_purchase_return = 1, ri_quantity = 10, ri_created_stock_item = Some 3,
         ri_batch_number = ''BATCH-B'', ri_expiry_date = None\<rparr>]\<rparr>"

definition ex_nested_db :: db where
  "ex_nested_db = ex_replaced_db\<lparr>purchase_returns := [ex_R1, ex_R2]\<rparr>"

subsection \<open>The grand total as the specification words it\<close>

text \<open>The batches created by a ReplacementItem of a return related to the order (the
  replacement chain), and the sum of \<open>quantity \<times> cost_price\<close> over the batches linked to
  the order directly or through that chain.\<close>

definition replacement_batches_of_po :: "db \<Rightarrow> PurchaseOrder \<Rightarrow> StockItem list" where
  "replacement_batches_of_po d po =
     filter (\<lambda>s. \<exists>i \<in> set (replacement_items d).
                   ri_created_stock_item i = Some (si_pk s)
                   \<and> ri_purchase_return i \<in> pr_pk ` set (get_all_related_returns d po))
            (stock_items d)"

definition spec_grand_total :: "db \<Rightarrow> PurchaseOrder \<Rightarrow> money" where
  "spec_grand_total d po =
     Sum (\<lambda>s. int (si_quantity s) * si_cost_price s)
         (filter (\<lambda>s. s \<in> set (stock_items_of_po d po) \<or> s \<in> set (replacement_batches_of_po d po))
                 (stock_items d))"

text \<open>The batch \<^verbatim>\<open>ReplacementItem.save\<close> creates for a new replacement \<open>i\<close> of a return
  of the batch \<open>original_stock\<close>.\<close>

definition replacement_stock :: "db \<Rightarrow> StockItem \<Rightarrow> ReplacementItem \<Rightarrow> StockItem" where
  "replacement_stock d original_stock i =
     \<lparr>si_pk = new_pk si_pk (stock_items d),
      si_product_variant = si_product_variant original_stock,
      si_supplier = si_supplier original_stock,
      si_purchase_order_item = None,
      si_batch_number = ri_batch_number i,
      si_expiry_date = ri_expiry_date i,
      si_quantity = ri_quantity i,
      si_mrp = si_mrp original_stock,
      si_base_cost_price = si_base_cost_price original_stock,
      si_discount_percentage = si_discount_percentage original_stock,
      si_gst_percentage = si_gst_percentage original_stock,
      si_cost_price = si_cost_price original_stock,
      si_source = REPLACEMENT\<rparr>"

subsection \<open>Returns: conservation of value\<close>










subsection \<open>Stock receipt\<close>

text \<open>An order with two lines, nothing received yet; a form for \<open>q\<close> units of the line
  \<open>k\<close> at a base cost of 10.00; and two submissions: one for both lines, one whose
  second form names an order item that does not exist.\<close>

definition ex_order_db :: db where
  "ex_order_db = empty_db\<lparr>
     products := [\<lparr>p_pk = 1, p_requires_expiry_tracking = False\<rparr>],
     product_variants := [\<lparr>pv_pk = 1, pv_product = 1, pv_price = 1500\<rparr>],
     purchase_order_items :=
       [\<lparr>poi_pk = 1, poi_purchase_order = 1, poi_product_variant = 1,
         poi_quantity = 100, poi_quantity_received = 0\<rparr>,
        \<lparr>poi_pk = 2, poi_purchase_order = 1, poi_product_variant = 1,
         poi_quantity = 50, poi_quantity_received = 0\<rparr>],
     purchase_orders := [\<lparr>po_pk = 1, po_supplier = 1, po_order_date = 0, po_status = PO_PENDING\<rparr>]\<rparr>"

definition ex_form :: "pk \<Rightarrow> int \<Rightarrow> ReceiveStockForm" where
  "ex_form k q = \<lparr>rs_purchase_order_item_id = Some k, rs_quantity_to_receive = Some q,
      rs_mrp = Some 1500, rs_base_cost_price = Some 1000, rs_discount_percentage = None,
      rs_discount_amount = None, rs_gst_percentage = None, rs_batch_number = ''BATCH001'',
      rs_expiry_date = None, rs_date_received = None\<rparr>"


definition ex_forms_ok :: "ReceiveStockForm list" where
  "ex_forms_ok = [ex_form 1 100, ex_form 2 20]"

definition ex_forms_failing :: "ReceiveStockForm list" where
  "ex_forms_failing = [ex_form 1 100, ex_form 99 20]"

section \<open>Facts about the ORM operations\<close>




lemma new_pk_pos: "new_pk key rows \<noteq> 0"
  by (simp add: new_pk_def)


lemma get_row_None_iff: "get_row key rows k = None \<longleftrightarrow> (\<forall>r \<in> set rows. key r \<noteq> k)"
  unfolding get_row_def by (auto simp: find_None_iff)


lemma save_row_new:
  "key r = 0 \<Longrightarrow>
   save_row key set_key rows r = (set_key (new_pk key rows) r, rows @ [set_key (new_pk key rows) r])"
  by (simp add: save_row_def Let_def)

section \<open>Purchase order status\<close>

lemma get_row_Some_key: "get_row key rows k = Some r \<Longrightarrow> key r = k \<and> r \<in> set rows"
  unfolding get_row_def by (induction rows) (auto split: if_splits)






section \<open>Supplier credit balance\<close>






text \<open>The example: 20 units of batch 1 are returned and refunded in full, which raises a
  credit of 200.00; 150.00 of it are applied to order 2, whose balance due is 500.00.\<close>

lemma ex_return_db_run: "create_return_view ex_db 1 (Some 20) = Inr ex_return_db"
  by code_simp

lemma ex_credit_db_run: "add_supplier_refund_view ex_return_db 1 1 (Some 20000) = Inr ex_credit_db"
  by code_simp


section \<open>Invoice status\<close>

text \<open>
  Claim C8, as stated, fails on the first save of an invoice: the instance has no key, the
  derivation under \<^verbatim>\<open>if self.pk:\<close> is skipped, and the status stays DRAFT although
  the balance due is 0.
\<close>

theorem Invoice_save_first_save_counterexample:
  "\<not> (inv_status (fst (Invoice_save ex_db new_invoice)) = PAID
       \<longleftrightarrow> Invoice_balance_due (snd (Invoice_save ex_db new_invoice))
                               (fst (Invoice_save ex_db new_invoice)) \<le> 0)"
  by code_simp

lemma Invoice_save_first_save_values: "inv_status (fst (Invoice_save ex_db new_invoice)) = DRAFT
  \<and> Invoice_balance_due (snd (Invoice_save ex_db new_invoice))
                               (fst (Invoice_save ex_db new_invoice)) = 0"
  by code_simp

text \<open>
  Claim C8, amended. On every save of an Invoice that has a key already and whose status
  is not CANCELLED, the status is a function of the balance due
  (\<open>net_amount - amount_paid + total_refunded\<close>, on the stored rows and the recomputed
  total) and of the amount paid: PAID iff the balance due is at most 0, PARTIAL iff it is
  positive and something has been paid, PENDING iff it is positive and nothing has been
  paid.
\<close>

theorem Invoice_save_status_derivation:
  assumes "inv_pk iv \<noteq> 0" and "inv_status iv \<noteq> CANCELLED"
  shows "(inv_status (fst (Invoice_save d iv)) = PAID
            \<longleftrightarrow> Invoice_balance_due (snd (Invoice_save d iv)) (fst (Invoice_save d iv)) \<le> 0)
       \<and> (inv_status (fst (Invoice_save d iv)) = PARTIAL
            \<longleftrightarrow> Invoice_balance_due (snd (Invoice_save d iv)) (fst (Invoice_save d iv)) > 0
                \<and> Invoice_amount_paid (snd (Invoice_save d iv)) (fst (Invoice_save d iv)) > 0)
       \<and> (inv_status (fst (Invoice_save d iv)) = PENDING
            \<longleftrightarrow> Invoice_balance_due (snd (Invoice_save d iv)) (fst (Invoice_save d iv)) > 0
                \<and> \<not> Invoice_amount_paid (snd (Invoice_save d iv)) (fst (Invoice_save d iv)) > 0)"
proof -
  define iv2 where "iv2 = iv\<lparr>inv_total_amount := calculate_total_amount d iv\<rparr>"
  define paid where "paid = Sum ip_amount (payments_of d iv)"
  define balance where "balance = net_amount d iv2 - paid + Sum rf_amount (refunds_of d iv)"
  define st where "st = (if balance \<le> 0 then PAID else if paid > 0 then PARTIAL else PENDING)"
  have fst_eq: "fst (Invoice_save d iv) = iv2\<lparr>inv_status := st\<rparr>"
    using assms
    by (simp add: Invoice_save_def save_row_def Let_def iv2_def paid_def balance_def st_def
          payments_of_def refunds_of_def)
  have tabs: "invoice_items (snd (Invoice_save d iv)) = invoice_items d"
       "invoice_payments (snd (Invoice_save d iv)) = invoice_payments d"
       "refunds (snd (Invoice_save d iv)) = refunds d"
    by (simp_all add: Invoice_save_def save_row_def Let_def split: prod.splits)
  have bal: "Invoice_balance_due (snd (Invoice_save d iv)) (fst (Invoice_save d iv)) = balance"
    unfolding fst_eq
    by (simp add: Invoice_balance_due_def net_amount_def Invoice_total_discount_def
          Invoice_amount_paid_def total_refunded_def payments_of_def refunds_of_def
          invoice_items_of_def tabs balance_def paid_def iv2_def)
  have pd: "Invoice_amount_paid (snd (Invoice_save d iv)) (fst (Invoice_save d iv)) = paid"
    unfolding fst_eq
    by (simp add: Invoice_amount_paid_def payments_of_def tabs paid_def iv2_def)
  have "inv_status (fst (Invoice_save d iv)) = st"
    unfolding fst_eq by simp
  then show ?thesis
    unfolding bal pd by (auto simp: st_def)
qed

theorem Invoice_save_status_derivation_witness:
  "inv_pk \<lparr>inv_pk = 1, inv_status = DRAFT, inv_total_amount = 0, inv_discount = 0\<rparr> \<noteq> 0
   \<and> inv_status (fst (Invoice_save ex_invoice_db
         \<lparr>inv_pk = 1, inv_status = DRAFT, inv_total_amount = 0, inv_discount = 0\<rparr>)) = PARTIAL
   \<and> Invoice_balance_due (snd (Invoice_save ex_invoice_db
         \<lparr>inv_pk = 1, inv_status = DRAFT, inv_total_amount = 0, inv_discount = 0\<rparr>))
        (fst (Invoice_save ex_invoice_db
         \<lparr>inv_pk = 1, inv_status = DRAFT, inv_total_amount = 0, inv_discount = 0\<rparr>)) > 0"
proof -
  let ?iv = "\<lparr>inv_pk = 1, inv_status = DRAFT, inv_total_amount = 0, inv_discount = 0\<rparr>"
  have h: "inv_pk ?iv \<noteq> 0" "inv_status ?iv \<noteq> CANCELLED" by simp_all
  have v: "inv_status (fst (Invoice_save ex_invoice_db ?iv)) = PARTIAL" by code_simp
  show ?thesis
    using h v Invoice_save_status_derivation[OF h, of ex_invoice_db] by simp
qed

section \<open>Supplier refunds and their credit notes\<close>

lemma PurchaseReturn_update_status_frame:
  "supplier_credits (snd (PurchaseReturn_update_status d r)) = supplier_credits d"
  "purchase_orders (snd (PurchaseReturn_update_status d r)) = purchase_orders d"
  "supplier_refunds (snd (PurchaseReturn_update_status d r)) = supplier_refunds d"
  "stock_items (snd (PurchaseReturn_update_status d r)) = stock_items d"
  "replacement_items (snd (PurchaseReturn_update_status d r)) = replacement_items d"
  "purchase_order_items (snd (PurchaseReturn_update_status d r)) = purchase_order_items d"
  "credit_applications (snd (PurchaseReturn_update_status d r)) = credit_applications d"
  by (simp_all add: PurchaseReturn_update_status_def save_return_status_def Let_def)

lemma PurchaseOrder_update_status_frame:
  "supplier_credits (snd (PurchaseOrder_update_status d po)) = supplier_credits d"
  "purchase_returns (snd (PurchaseOrder_update_status d po)) = purchase_returns d"
  "supplier_refunds (snd (PurchaseOrder_update_status d po)) = supplier_refunds d"
  "stock_items (snd (PurchaseOrder_update_status d po)) = stock_items d"
  "replacement_items (snd (PurchaseOrder_update_status d po)) = replacement_items d"
  "purchase_order_items (snd (PurchaseOrder_update_status d po)) = purchase_order_items d"
  "credit_applications (snd (PurchaseOrder_update_status d po)) = credit_applications d"
  by (simp_all add: PurchaseOrder_update_status_def save_po_status_def Let_def)




section \<open>Stock consumption by invoice lines\<close>









section \<open>Nested return discovery\<close>

lemma add_newly_found_all_new:
  "distinct (map pr_pk ns) \<Longrightarrow> \<forall>n \<in> set ns. pr_pk n \<notin> p \<Longrightarrow>
   add_newly_found ns a nw p = (a @ ns, nw @ ns, p \<union> pr_pk ` set ns)"
proof (induction ns arbitrary: a nw p)
  case Nil
  then show ?case by simp
next
  case (Cons n ns)
  have "add_newly_found ns (a @ [n]) (nw @ [n]) (insert (pr_pk n) p)
          = ((a @ [n]) @ ns, (nw @ [n]) @ ns, insert (pr_pk n) p \<union> pr_pk ` set ns)"
    using Cons.prems by (intro Cons.IH) (auto simp: image_iff)
  then show ?case using Cons.prems by simp
qed

lemma nested_returns_distinct:
  "distinct (map pr_pk (purchase_returns d)) \<Longrightarrow> distinct (map pr_pk (nested_returns d st p))"
  unfolding nested_returns_def by (rule distinct_map_filter)

lemma nested_returns_new: "\<forall>n \<in> set (nested_returns d st p). pr_pk n \<notin> p"
  by (simp add: nested_returns_def)

lemma distinct_of_map: "distinct (map f xs) \<Longrightarrow> distinct xs"
  by (simp add: distinct_map)

lemma same_pk_same_row:
  "distinct (map pr_pk rows) \<Longrightarrow> x \<in> set rows \<Longrightarrow> y \<in> set rows \<Longrightarrow> pr_pk x = pr_pk y \<Longrightarrow> x = y"
  by (meson distinct_map inj_onD)

lemma mem_created_stock_items:
  "b \<in> set (created_stock_items reps) \<longleftrightarrow> (\<exists>i \<in> set reps. ri_created_stock_item i = Some b)"
  by (induction reps) (auto simp: created_stock_items_def split: option.splits)

lemma nested_returns_iff:
  "r' \<in> set (nested_returns d (created_stock_items (replacements_of d c)) p) \<longleftrightarrow>
     r' \<in> set (purchase_returns d) \<and> pr_pk r' \<notin> p \<and> (\<exists>r \<in> set c. replaced_by d r r')"
  by (auto simp: nested_returns_def mem_created_stock_items replacements_of_def replaced_by_def)


lemma related_returns_closed:
  assumes sub: "S \<subseteq> related_returns d po"
    and direct: "set (returns_of_po d po) \<subseteq> S"
    and closed: "\<forall>r \<in> S. \<forall>r' \<in> set (purchase_returns d). replaced_by d r r' \<longrightarrow> r' \<in> S"
  shows "S = related_returns d po"
proof
  show "S \<subseteq> related_returns d po" by (rule sub)
  show "related_returns d po \<subseteq> S"
  proof
    fix r assume "r \<in> related_returns d po"
    then show "r \<in> S"
      by (induction rule: related_returns.induct) (use direct closed in auto)
  qed
qed

lemma related_returns_loop_correct:
  assumes dist: "distinct (map pr_pk (purchase_returns d))"
    and sub: "set a \<subseteq> related_returns d po"
    and rows: "set a \<subseteq> set (purchase_returns d)"
    and p: "p = pr_pk ` set a"
    and c: "set c \<subseteq> set a"
    and closed: "\<forall>r \<in> set a - set c. \<forall>r' \<in> set (purchase_returns d). replaced_by d r r' \<longrightarrow> r' \<in> set a"
    and direct: "set (returns_of_po d po) \<subseteq> set a"
    and da: "distinct a"
  shows "set (related_returns_loop d a c p) = related_returns d po
         \<and> distinct (related_returns_loop d a c p)"
  using assms
proof (induction d a c p rule: related_returns_loop.induct)
  case (1 d a c p)
  let ?ns = "nested_returns d (created_stock_items (replacements_of d c)) p"
  have in_a: "r' \<in> set a" if "r' \<in> set (purchase_returns d)" "pr_pk r' \<in> p" for r'
  proof -
    from that(2) obtain x where x: "x \<in> set a" "pr_pk x = pr_pk r'"
      using "1.prems"(4) by auto
    then have "x = r'"
      using same_pk_same_row[OF "1.prems"(1), of x r'] "1.prems"(3) that(1) by auto
    with x show ?thesis by simp
  qed
  have run: "add_newly_found ?ns a [] p = (a @ ?ns, ?ns, p \<union> pr_pk ` set ?ns)"
    using add_newly_found_all_new[OF nested_returns_distinct[OF "1.prems"(1)] nested_returns_new, of _ _ a "[]"]
    by simp
  show ?case
  proof (cases "c = [] \<or> replacements_of d c = [] \<or> created_stock_items (replacements_of d c) = [] \<or> ?ns = []")
    case True
    then have res: "related_returns_loop d a c p = a"
      by (subst related_returns_loop.simps) (auto simp: run)
    have no_succ: "r' \<in> set a" if "r \<in> set c" "r' \<in> set (purchase_returns d)" "replaced_by d r r'" for r r'
    proof (cases "pr_pk r' \<in> p")
      case True2: True
      then show ?thesis using in_a that(2) by simp
    next
      case False
      then have "r' \<in> set ?ns"
        using that by (auto simp: nested_returns_iff)
      moreover have "?ns = []"
      proof -
        from that(1) have "c \<noteq> []" by auto
        moreover have "replacements_of d c \<noteq> []"
          using that(1,3) by (auto simp: replacements_of_def replaced_by_def filter_empty_conv)
        moreover have "created_stock_items (replacements_of d c) \<noteq> []"
        proof -
          have "pr_stock_item r' \<in> set (created_stock_items (replacements_of d c))"
            using that(1,3) by (auto simp: mem_created_stock_items replacements_of_def replaced_by_def)
          then show ?thesis by auto
        qed
        ultimately show ?thesis using True by simp
      qed
      ultimately show ?thesis by simp
    qed
    have "set a = related_returns d po"
    proof (rule related_returns_closed[OF "1.prems"(2) "1.prems"(7)], intro ballI impI)
      fix r r' assume "r \<in> set a" "r' \<in> set (purchase_returns d)" "replaced_by d r r'"
      then show "r' \<in> set a"
        using no_succ "1.prems"(6) by (cases "r \<in> set c") auto
    qed
    then show ?thesis using res "1.prems"(8) by simp
  next
    case False
    then have res: "related_returns_loop d a c p
        = related_returns_loop d (a @ ?ns) ?ns (p \<union> pr_pk ` set ?ns)"
      by (subst related_returns_loop.simps) (simp add: run)
    have ns_rel: "set ?ns \<subseteq> related_returns d po"
    proof
      fix r' assume "r' \<in> set ?ns"
      then obtain r where "r' \<in> set (purchase_returns d)" "r \<in> set c" "replaced_by d r r'"
        by (auto simp: nested_returns_iff)
      then show "r' \<in> related_returns d po"
        using "1.prems"(2,5) by (auto intro: related_returns.nested)
    qed
    have ns_rows: "set ?ns \<subseteq> set (purchase_returns d)"
      by (auto simp: nested_returns_def)
    have ns_disj: "set a \<inter> set ?ns = {}"
      using "1.prems"(4) by (auto simp: nested_returns_def)
    have IH: "set (related_returns_loop d (a @ ?ns) ?ns (p \<union> pr_pk ` set ?ns)) = related_returns d po
         \<and> distinct (related_returns_loop d (a @ ?ns) ?ns (p \<union> pr_pk ` set ?ns))"
    proof (rule "1.IH"[OF _ _ _ run[symmetric] refl])
      show "c \<noteq> []" "replacements_of d c \<noteq> []" "created_stock_items (replacements_of d c) \<noteq> []"
        "?ns \<noteq> []"
        using False by auto
      show "distinct (map pr_pk (purchase_returns d))" by (rule "1.prems"(1))
      show "set (a @ ?ns) \<subseteq> related_returns d po" using "1.prems"(2) ns_rel by simp
      show "set (a @ ?ns) \<subseteq> set (purchase_returns d)" using "1.prems"(3) ns_rows by simp
      show "p \<union> pr_pk ` set ?ns = pr_pk ` set (a @ ?ns)" using "1.prems"(4) by auto
      show "set ?ns \<subseteq> set (a @ ?ns)" by simp
      show "set (returns_of_po d po) \<subseteq> set (a @ ?ns)" using "1.prems"(7) by auto
      show "distinct (a @ ?ns)"
        using "1.prems"(8) ns_disj distinct_of_map[OF nested_returns_distinct[OF "1.prems"(1)]] by auto
      show "\<forall>r\<in>set (a @ ?ns) - set ?ns. \<forall>r'\<in>set (purchase_returns d). replaced_by d r r' \<longrightarrow> r' \<in> set (a @ ?ns)"
      proof (intro ballI impI)
        fix r r' assume r: "r \<in> set (a @ ?ns) - set ?ns" and r': "r' \<in> set (purchase_returns d)"
          and rb: "replaced_by d r r'"
        then have ra: "r \<in> set a" by auto
        show "r' \<in> set (a @ ?ns)"
        proof (cases "r \<in> set c")
          case False
          then show ?thesis using ra r' rb "1.prems"(6) by auto
        next
          case True
          show ?thesis
          proof (cases "pr_pk r' \<in> p")
            case True
            then show ?thesis using in_a r' by simp
          next
            case False
            then have "r' \<in> set ?ns" using \<open>r \<in> set c\<close> r' rb by (auto simp: nested_returns_iff)
            then show ?thesis by simp
          qed
        qed
      qed
    qed
    show ?thesis unfolding res by (rule IH)
  qed
qed

text \<open>
  Claim C2. \<^verbatim>\<open>_get_all_related_returns\<close> terminates (the loop is a total function: the
  set of processed keys grows in every round and stays within the keys of the stored
  returns), and, the keys of the stored returns being distinct, it returns exactly the
  returns reachable from the order, none of them twice.
\<close>

theorem get_all_related_returns_correct:
  assumes "distinct (map pr_pk (purchase_returns d))"
  shows "set (get_all_related_returns d po) = related_returns d po
         \<and> distinct (get_all_related_returns d po)"
  unfolding get_all_related_returns_def Let_def
proof (rule related_returns_loop_correct[OF assms])
  show "set (returns_of_po d po) \<subseteq> related_returns d po"
    by (auto intro: related_returns.direct)
  show "set (returns_of_po d po) \<subseteq> set (purchase_returns d)"
    by (auto simp: returns_of_po_def)
  show "distinct (returns_of_po d po)"
    using distinct_of_map[OF assms] by (auto simp: returns_of_po_def)
qed auto


text \<open>The scenario of the claim: batch 1 of order 1 is returned (return 1), the return is
  replaced by batch 3, batch 3 is returned (return 2, which has no order of its own);
  the result for order 1 is return 1 and return 2.\<close>

lemma ex_replaced_db_run:
  "create_return_view ex_db 1 (Some 10) = Inr (ex_db\<lparr>purchase_returns := [ex_R1\<lparr>pr_status := PR_PENDING\<rparr>]\<rparr>)"
  "receive_replacement_view (ex_db\<lparr>purchase_returns := [ex_R1\<lparr>pr_status := PR_PENDING\<rparr>]\<rparr>) 1 0
     \<lparr>rsf_quantity = Some 10, rsf_batch_number = ''BATCH-B'', rsf_expiry_date = None\<rparr>
   = Inr ex_replaced_db"
  "create_return_view ex_replaced_db 3 (Some 4) = Inr ex_nested_db"
  by code_simp+

theorem get_all_related_returns_correct_witness:
  "distinct (map pr_pk (purchase_returns ex_nested_db))
   \<and> set (get_all_related_returns ex_nested_db ex_po1) = related_returns ex_nested_db ex_po1
   \<and> get_all_related_returns ex_nested_db ex_po1 = [ex_R1, ex_R2]"
proof -
  have h: "distinct (map pr_pk (purchase_returns ex_nested_db))" by code_simp
  have v: "get_all_related_returns ex_nested_db ex_po1 = [ex_R1, ex_R2]" by code_simp
  show ?thesis
    using h v get_all_related_returns_correct[OF h, of ex_po1] by simp
qed

section \<open>Grand total of a purchase order\<close>

text \<open>
  Claim C3, as stated, fails once a return of the order has been replaced: the
  replacement batch is created with \<^verbatim>\<open>purchase_order_item=None\<close>, and
  \<^verbatim>\<open>grand_total\<close> filters on \<^verbatim>\<open>purchase_order_item__purchase_order\<close>. In the example
  the total stays 1000.00 where the sum over the chain is 1100.00.
\<close>

theorem grand_total_replacement_counterexample:
  "\<not> grand_total ex_replaced_db ex_po1 = spec_grand_total ex_replaced_db ex_po1"
  by code_simp

lemma grand_total_replacement_values:
  "grand_total ex_replaced_db ex_po1 = 100000" "spec_grand_total ex_replaced_db ex_po1 = 110000"
  by code_simp+

lemma StockItem_full_clean_Inr: "StockItem_full_clean s = Inr s' \<Longrightarrow> s' = s"
  by (auto simp: StockItem_full_clean_def split: if_splits)

lemma get_row_Some_iff:
  "distinct (map key rows) \<Longrightarrow> get_row key rows k = Some r \<longleftrightarrow> r \<in> set rows \<and> key r = k"
  unfolding get_row_def by (induction rows) (auto simp: image_iff)

lemma stock_items_of_po_eq:
  assumes "distinct (map poi_pk (purchase_order_items d))"
  shows "stock_items_of_po d po =
           filter (\<lambda>s. \<exists>i \<in> set (po_items d po). si_purchase_order_item s = Some (poi_pk i))
                  (stock_items d)"
  unfolding stock_items_of_po_def
proof (rule filter_cong[OF refl])
  fix s
  show "(case si_purchase_order_item s of None \<Rightarrow> False
         | Some i \<Rightarrow> (case get_PurchaseOrderItem d i of None \<Rightarrow> False
                      | Some it \<Rightarrow> poi_purchase_order it = po_pk po))
        = (\<exists>i \<in> set (po_items d po). si_purchase_order_item s = Some (poi_pk i))"
  proof (cases "si_purchase_order_item s")
    case None
    then show ?thesis by simp
  next
    case (Some k)
    show ?thesis
    proof (cases "get_PurchaseOrderItem d k")
      case None
      then have "\<forall>r \<in> set (purchase_order_items d). poi_pk r \<noteq> k"
        by (simp add: get_PurchaseOrderItem_def get_row_None_iff)
      then show ?thesis using Some None by (auto simp: po_items_def)
    next
      case Some2: (Some it)
      then have it: "it \<in> set (purchase_order_items d)" "poi_pk it = k"
        using get_row_Some_iff[OF assms] by (auto simp: get_PurchaseOrderItem_def)
      have "(\<exists>i \<in> set (po_items d po). k = poi_pk i) \<longleftrightarrow> poi_purchase_order it = po_pk po"
      proof
        assume "\<exists>i \<in> set (po_items d po). k = poi_pk i"
        then obtain i where i: "i \<in> set (purchase_order_items d)" "poi_purchase_order i = po_pk po"
            "poi_pk i = k"
          by (auto simp: po_items_def)
        then have "get_row poi_pk (purchase_order_items d) k = Some i"
          using get_row_Some_iff[OF assms] by simp
        then have "i = it" using Some2 by (simp add: get_PurchaseOrderItem_def)
        then show "poi_purchase_order it = po_pk po" using i by simp
      next
        assume "poi_purchase_order it = po_pk po"
        then show "\<exists>i \<in> set (po_items d po). k = poi_pk i"
          using it by (auto simp: po_items_def)
      qed
      then show ?thesis using Some Some2 by simp
    qed
  qed
qed


lemma ReplacementItem_save_new:
  assumes "ri_pk i = 0" "ReplacementItem_save d i = Inr (i', d')"
  shows "\<exists>r original.
           get_PurchaseReturn d (ri_purchase_return i) = Some r
         \<and> get_StockItem d (pr_stock_item r) = Some original
         \<and> i' = i\<lparr>ri_created_stock_item := Some (new_pk si_pk (stock_items d)),
                  ri_pk := new_pk ri_pk (replacement_items d)\<rparr>
         \<and> d' = snd (PurchaseReturn_update_status
                       (d\<lparr>stock_items := stock_items d @ [replacement_stock d original i],
                          replacement_items := replacement_items d @ [i']\<rparr>) r)"
proof -
  from assms obtain r where r: "get_PurchaseReturn d (ri_purchase_return i) = Some r"
    by (auto simp: ReplacementItem_save_def split: option.splits)
  from assms r obtain original where o: "get_StockItem d (pr_stock_item r) = Some original"
    by (auto simp: ReplacementItem_save_def split: option.splits)
  let ?s0 = "(replacement_stock d original i)\<lparr>si_pk := 0\<rparr>"
  from assms r o obtain sc where sc: "StockItem_full_clean ?s0 = Inr sc"
    by (auto simp: ReplacementItem_save_def StockItem_create_def replacement_stock_def
        split: sum.splits)
  then have sc_eq: "sc = ?s0" by (rule StockItem_full_clean_Inr)
  have create: "StockItem_create d ?s0
      = Inr (replacement_stock d original i,
             d\<lparr>stock_items := stock_items d @ [replacement_stock d original i]\<rparr>)"
    using sc unfolding sc_eq
    by (simp add: StockItem_create_def save_row_new replacement_stock_def)
  let ?i' = "i\<lparr>ri_created_stock_item := Some (new_pk si_pk (stock_items d)),
                  ri_pk := new_pk ri_pk (replacement_items d)\<rparr>"
  let ?d2 = "d\<lparr>stock_items := stock_items d @ [replacement_stock d original i],
                          replacement_items := replacement_items d @ [?i']\<rparr>"
  have r2: "get_PurchaseReturn ?d2 (ri_purchase_return i) = Some r"
    using r by (simp add: get_PurchaseReturn_def)
  have sv: "ReplacementItem_save d i = Inr (?i', snd (PurchaseReturn_update_status ?d2 r))"
    using assms(1) r o create r2
    by (simp add: ReplacementItem_save_def save_row_new replacement_stock_def)
  have "Inr (i', d') = (Inr (?i', snd (PurchaseReturn_update_status ?d2 r))
      :: error + ReplacementItem \<times> db)"
    using assms(2)[symmetric] sv by (rule trans)
  then have e1: "?i' = i'" and e2: "d' = snd (PurchaseReturn_update_status ?d2 r)" by blast+
  show ?thesis using r o e1[symmetric] e2[unfolded e1] by blast
qed

text \<open>
  Claim C3, amended. \<^verbatim>\<open>grand_total\<close> is the sum of \<open>quantity \<times> cost_price\<close> over the
  batches whose \<^verbatim>\<open>purchase_order_item\<close> is an item of the order; a replacement batch
  is not among them, and saving a new ReplacementItem leaves the grand total of every
  order as it was.
\<close>

theorem grand_total_direct_batches_only:
  assumes "distinct (map poi_pk (purchase_order_items d))"
  shows "grand_total d po =
           Sum (\<lambda>s. int (si_quantity s) * si_cost_price s)
               (filter (\<lambda>s. \<exists>i \<in> set (po_items d po). si_purchase_order_item s = Some (poi_pk i))
                       (stock_items d))
       \<and> (ri_pk i = 0 \<and> ReplacementItem_save d i = Inr (i', d')
            \<longrightarrow> grand_total d' po = grand_total d po)"
proof (intro conjI impI)
  show "grand_total d po =
           Sum (\<lambda>s. int (si_quantity s) * si_cost_price s)
               (filter (\<lambda>s. \<exists>i \<in> set (po_items d po). si_purchase_order_item s = Some (poi_pk i))
                       (stock_items d))"
    by (simp add: grand_total_def stock_items_of_po_eq[OF assms])
next
  assume "ri_pk i = 0 \<and> ReplacementItem_save d i = Inr (i', d')"
  then obtain r original where
    d': "d' = snd (PurchaseReturn_update_status
                       (d\<lparr>stock_items := stock_items d @ [replacement_stock d original i],
                          replacement_items := replacement_items d @ [i']\<rparr>) r)"
    using ReplacementItem_save_new[of i d i' d'] by auto
  have g: "get_PurchaseOrderItem d' = get_PurchaseOrderItem d"
    by (simp add: fun_eq_iff get_PurchaseOrderItem_def d' PurchaseReturn_update_status_frame)
  have s: "stock_items d' = stock_items d @ [replacement_stock d original i]"
    by (simp add: d' PurchaseReturn_update_status_frame)
  show "grand_total d' po = grand_total d po"
    unfolding grand_total_def stock_items_of_po_def g s by (simp add: replacement_stock_def)
qed

theorem grand_total_direct_batches_only_witness:
  "distinct (map poi_pk (purchase_order_items ex_return_db))
   \<and> grand_total ex_return_db ex_po1 = 100000
   \<and> (\<exists>i' d'. ReplacementItem_save ex_return_db
          \<lparr>ri_pk = 0, ri_purchase_return = 1, ri_quantity = 20, ri_created_stock_item = None,
           ri_batch_number = ''BATCH-B'', ri_expiry_date = None\<rparr> = Inr (i', d')
        \<and> length (stock_items d') = 3
        \<and> grand_total d' ex_po1 = 100000)"
proof -
  let ?i = "\<lparr>ri_pk = 0, ri_purchase_return = 1, ri_quantity = 20, ri_created_stock_item = None,
           ri_batch_number = ''BATCH-B'', ri_expiry_date = None\<rparr>"
  have h: "distinct (map poi_pk (purchase_order_items ex_return_db))" by code_simp
  have v: "grand_total ex_return_db ex_po1 = 100000" by code_simp
  have r: "\<not> isl (ReplacementItem_save ex_return_db ?i)"
     "length (stock_items (snd (projr (ReplacementItem_save ex_return_db ?i)))) = 3" by code_simp+
  then obtain i' d' where s: "ReplacementItem_save ex_return_db ?i = Inr (i', d')"
    by (cases "ReplacementItem_save ex_return_db ?i") auto
  show ?thesis
    using h v r s grand_total_direct_batches_only[OF h, of ex_po1 ?i i' d'] by simp
qed

section \<open>Conservation of value on returns\<close>


















section \<open>Atomicity of a stock receipt\<close>

lemma get_row_map_key:
  assumes "\<And>x. key (f x) = key x"
  shows "get_row key (map (\<lambda>x. if key x = k0 then f x else x) rows) k
           = (if k = k0 then map_option f (get_row key rows k) else get_row key rows k)"
  unfolding get_row_def using assms by (induction rows) auto

lemma StockItem_create_Inr:
  assumes "StockItem_create d s0 = Inr (s, d1)"
  shows "s = s0\<lparr>si_pk := new_pk si_pk (stock_items d)\<rparr> \<and> d1 = d\<lparr>stock_items := stock_items d @ [s]\<rparr>"
proof -
  from assms obtain sc where sc: "StockItem_full_clean s0 = Inr sc"
    by (auto simp: StockItem_create_def split: sum.splits)
  then have "sc = s0" by (rule StockItem_full_clean_Inr)
  with assms sc show ?thesis
    by (auto simp: StockItem_create_def save_row_new)
qed

lemma receive_forms_committed:
  assumes "receive_forms d po forms = (d', None)"
  shows "(\<exists>new. stock_items d' = stock_items d @ new
            \<and> map (\<lambda>s. (si_purchase_order_item s, int (si_quantity s))) new
                = map (\<lambda>f. (rs_purchase_order_item_id f, the (rs_quantity_to_receive f)))
                      (filter requested forms))
       \<and> (\<forall>k. map_option (\<lambda>i. int (poi_quantity_received i)) (get_PurchaseOrderItem d' k)
               = map_option (\<lambda>i. int (poi_quantity_received i)
                                 + Sum (\<lambda>f. the (rs_quantity_to_receive f))
                                     (filter (\<lambda>f. requested f \<and> rs_purchase_order_item_id f = Some k)
                                             forms))
                            (get_PurchaseOrderItem d k))"
  using assms
proof (induction forms arbitrary: d)
  case Nil
  then show ?case by (simp add: Sum_def option.map_ident)
next
  case (Cons form forms)
  show ?case
  proof (cases "requested form")
    case False
    then have "receive_forms d po forms = (d', None)" using Cons.prems by simp
    from Cons.IH[OF this] show ?thesis using False by simp
  next
    case True
    then obtain q where q: "rs_quantity_to_receive form = Some q" "0 < q"
      by (auto simp: requested_def split: option.splits)
    from Cons.prems True obtain k po_item where k: "rs_purchase_order_item_id form = Some k"
      and item: "get_PurchaseOrderItem d k = Some po_item"
      by (auto split: option.splits)
    have pk: "poi_pk po_item = k"
      using get_row_Some_key[of poi_pk "purchase_order_items d" k po_item] item
      by (simp add: get_PurchaseOrderItem_def)
    from Cons.prems True k item q obtain s d1 where
      cr: "StockItem_create d (received_stock_item po po_item form q) = Inr (s, d1)"
      by (auto split: sum.splits)
    note c = StockItem_create_Inr[OF cr]
    let ?d2 = "save_quantity_received d1 po_item (poi_quantity_received po_item + nat q)"
    from Cons.prems True k item q cr obtain d3 where
      up: "update_po_on_item_save ?d2 po_item = Inr d3"
      and rest: "receive_forms d3 po forms = (d', None)"
      by (auto simp: Let_def split: sum.splits)
    from up obtain p where d3: "d3 = snd (PurchaseOrder_update_status ?d2 p)"
      by (auto simp: update_po_on_item_save_def split: option.splits)
    have st3: "stock_items d3 = stock_items d @ [s]"
      using c by (simp add: d3 PurchaseOrder_update_status_frame save_quantity_received_def)
    have it3: "purchase_order_items d3 =
        map (\<lambda>x. if poi_pk x = k then x\<lparr>poi_quantity_received := poi_quantity_received po_item + nat q\<rparr>
                  else x) (purchase_order_items d)"
      using c pk by (simp add: d3 PurchaseOrder_update_status_frame save_quantity_received_def)
    have sproj: "(si_purchase_order_item s, int (si_quantity s)) = (Some k, q)"
      using c pk q by (simp add: received_stock_item_def Let_def)
    have get3: "get_PurchaseOrderItem d3 k' =
        (if k' = k then map_option (\<lambda>x. x\<lparr>poi_quantity_received := poi_quantity_received po_item + nat q\<rparr>)
                          (get_PurchaseOrderItem d k')
         else get_PurchaseOrderItem d k')" for k'
      unfolding get_PurchaseOrderItem_def it3
      by (rule get_row_map_key) simp
    note ih = Cons.IH[OF rest]
    from ih obtain new where new: "stock_items d' = stock_items d3 @ new"
      "map (\<lambda>s. (si_purchase_order_item s, int (si_quantity s))) new
                = map (\<lambda>f. (rs_purchase_order_item_id f, the (rs_quantity_to_receive f)))
                      (filter requested forms)"
      by blast
    have part1: "\<exists>new. stock_items d' = stock_items d @ new
            \<and> map (\<lambda>s. (si_purchase_order_item s, int (si_quantity s))) new
                = map (\<lambda>f. (rs_purchase_order_item_id f, the (rs_quantity_to_receive f)))
                      (filter requested (form # forms))"
      using new st3 sproj True k q by (intro exI[of _ "s # new"]) simp
    have part2: "map_option (\<lambda>i. int (poi_quantity_received i)) (get_PurchaseOrderItem d' k')
               = map_option (\<lambda>i. int (poi_quantity_received i)
                                 + Sum (\<lambda>f. the (rs_quantity_to_receive f))
                                     (filter (\<lambda>f. requested f \<and> rs_purchase_order_item_id f = Some k')
                                             (form # forms)))
                            (get_PurchaseOrderItem d k')" for k'
    proof -
      have e: "map_option (\<lambda>i. int (poi_quantity_received i)) (get_PurchaseOrderItem d' k')
               = map_option (\<lambda>i. int (poi_quantity_received i)
                                 + Sum (\<lambda>f. the (rs_quantity_to_receive f))
                                     (filter (\<lambda>f. requested f \<and> rs_purchase_order_item_id f = Some k')
                                             forms))
                            (get_PurchaseOrderItem d3 k')"
        using ih by blast
      show ?thesis
      proof (cases "k' = k")
        case False
        then show ?thesis using e get3[of k'] True k by (simp add: Sum_def)
      next
        case True2: True
        then show ?thesis
          using e get3[of k'] True k q item
          by (auto simp: Sum_def option.map_comp o_def)
      qed
    qed
    show ?thesis using part1 part2 by blast
  qed
qed

lemma transaction_atomic_cases:
  "transaction_atomic body d = (d', out) \<Longrightarrow>
     (\<exists>r. out = Inr r \<and> body d = (d', Inr r)) \<or> (\<exists>e. out = Inl e \<and> d' = d)"
  by (auto simp: transaction_atomic_def split: prod.splits sum.splits)

text \<open>
  Claim C4. A receipt submission is atomic. Either the view answers with the redirect
  after success, and then the batches of the store are the ones before followed by one
  new batch for every line with a positive quantity, in order, each linked to the order
  item of its line with the quantity of its line, and \<open>quantity_received\<close> of every
  order item has grown by the quantities of the lines that name it; or the store is
  exactly the one before the submission (invalid formset, nothing left to receive, or an
  exception at any point of the loop, whose writes \<^verbatim>\<open>@transaction.atomic\<close> rolls back).
\<close>

theorem receive_purchase_order_atomic:
  assumes "receive_purchase_order_view d key today now forms = (d', out)"
  shows "(out = Inr Redirect_received \<longrightarrow>
            take (length (stock_items d)) (stock_items d') = stock_items d
          \<and> map (\<lambda>s. (si_purchase_order_item s, int (si_quantity s)))
                (drop (length (stock_items d)) (stock_items d'))
              = map (\<lambda>f. (rs_purchase_order_item_id f, the (rs_quantity_to_receive f)))
                    (filter requested forms)
          \<and> (\<forall>k. map_option (\<lambda>i. int (poi_quantity_received i)) (get_PurchaseOrderItem d' k)
                 = map_option (\<lambda>i. int (poi_quantity_received i)
                                   + Sum (\<lambda>f. the (rs_quantity_to_receive f))
                                       (filter (\<lambda>f. requested f \<and> rs_purchase_order_item_id f = Some k)
                                               forms))
                              (get_PurchaseOrderItem d k)))
       \<and> (out \<noteq> Inr Redirect_received \<longrightarrow> d' = d)"
proof -
  have failed: "d' = d" if "out \<noteq> Inr Redirect_received"
    using that transaction_atomic_cases[OF assms[unfolded receive_purchase_order_view_def]]
    by (auto simp: receive_purchase_order_view_body_def Let_def
          split: option.splits sum.splits if_splits bool.splits prod.splits)
  have committed:
    "take (length (stock_items d)) (stock_items d') = stock_items d
          \<and> map (\<lambda>s. (si_purchase_order_item s, int (si_quantity s)))
                (drop (length (stock_items d)) (stock_items d'))
              = map (\<lambda>f. (rs_purchase_order_item_id f, the (rs_quantity_to_receive f)))
                    (filter requested forms)
          \<and> (\<forall>k. map_option (\<lambda>i. int (poi_quantity_received i)) (get_PurchaseOrderItem d' k)
                 = map_option (\<lambda>i. int (poi_quantity_received i)
                                   + Sum (\<lambda>f. the (rs_quantity_to_receive f))
                                       (filter (\<lambda>f. requested f \<and> rs_purchase_order_item_id f = Some k)
                                               forms))
                              (get_PurchaseOrderItem d k))"
    if ok: "out = Inr Redirect_received"
  proof -
    have body: "receive_purchase_order_view_body key today now forms d = (d', Inr Redirect_received)"
      using ok transaction_atomic_cases[OF assms[unfolded receive_purchase_order_view_def]] by auto
    then obtain po d1 po1 where loop: "receive_forms d po forms = (d1, None)"
      and d': "d' = snd (PurchaseOrder_update_status d1 po1)"
      by (auto simp: receive_purchase_order_view_body_def Let_def
            split: option.splits sum.splits if_splits bool.splits prod.splits)
    note r = receive_forms_committed[OF loop]
    from r obtain new where new: "stock_items d1 = stock_items d @ new"
      "map (\<lambda>s. (si_purchase_order_item s, int (si_quantity s))) new
                  = map (\<lambda>f. (rs_purchase_order_item_id f, the (rs_quantity_to_receive f)))
                        (filter requested forms)"
      by blast
    have st: "stock_items d' = stock_items d @ new"
      using new by (simp add: d' PurchaseOrder_update_status_frame)
    have g: "get_PurchaseOrderItem d' = get_PurchaseOrderItem d1"
      by (simp add: fun_eq_iff get_PurchaseOrderItem_def d' PurchaseOrder_update_status_frame)
    show ?thesis
      using r new(2) unfolding g st by simp
  qed
  show ?thesis using failed committed by blast
qed


text \<open>The example: in the failing submission the first line is written (the body alone
  leaves one batch behind) before the second line raises 404, and the view leaves the
  store untouched; the good submission creates both batches and sets both counters.\<close>

theorem receive_purchase_order_atomic_witness:
  "receive_purchase_order_view ex_order_db 1 0 0 ex_forms_failing = (ex_order_db, Inl Http404)
   \<and> length (stock_items (fst (receive_purchase_order_view_body 1 0 0 ex_forms_failing ex_order_db))) = 1
   \<and> snd (receive_purchase_order_view ex_order_db 1 0 0 ex_forms_ok) = Inr Redirect_received
   \<and> map (\<lambda>s. (si_purchase_order_item s, int (si_quantity s)))
         (stock_items (fst (receive_purchase_order_view ex_order_db 1 0 0 ex_forms_ok)))
       = [(Some 1, 100), (Some 2, 20)]
   \<and> map poi_quantity_received
         (purchase_order_items (fst (receive_purchase_order_view ex_order_db 1 0 0 ex_forms_ok)))
       = [100, 20]"
proof -
  have f: "receive_purchase_order_view ex_order_db 1 0 0 ex_forms_failing = (ex_order_db, Inl Http404)"
    by code_simp
  have b: "length (stock_items (fst (receive_purchase_order_view_body 1 0 0 ex_forms_failing ex_order_db))) = 1"
    by code_simp
  obtain d' where ok: "receive_purchase_order_view ex_order_db 1 0 0 ex_forms_ok = (d', Inr Redirect_received)"
  proof -
    have "snd (receive_purchase_order_view ex_order_db 1 0 0 ex_forms_ok) = Inr Redirect_received"
      by code_simp
    then show ?thesis using that by (metis prod.collapse)
  qed
  have s0: "stock_items ex_order_db = []" "map requested ex_forms_ok = [True, True]"
    "map (\<lambda>f. (rs_purchase_order_item_id f, the (rs_quantity_to_receive f))) ex_forms_ok = [(Some 1, 100), (Some 2, 20)]"
    by code_simp+
  have c: "map poi_quantity_received (purchase_order_items (fst (receive_purchase_order_view ex_order_db 1 0 0 ex_forms_ok)))
       = [100, 20]"
    by code_simp
  have flt: "filter requested ex_forms_ok = ex_forms_ok"
    using s0(2) by (simp add: ex_forms_ok_def)
  show ?thesis
    using f b c ok s0 flt
      receive_purchase_order_atomic[OF f]
      receive_purchase_order_atomic[OF ok]
    by simp
qed

end
